theory Spec2Isabelle
  imports Main
begin

section \<open>Python strings\<close>

text \<open>
  The provider is Python; its strings are modelled as \<open>string\<close>. The functions below
  are the string operations the provider uses: \<open>s.startswith(p)\<close>, \<open>s.endswith(p)\<close>,
  \<open>sub in s\<close>, \<open>s.split(c)\<close> for a one-character separator, \<open>s.replace(old, new)\<close>,
  \<open>os.path.basename\<close> and the decimal form of an integer inside an f-string.
\<close>

definition startswith :: "string \<Rightarrow> string \<Rightarrow> bool" where
  "startswith s p = (take (length p) s = p)"

definition endswith :: "string \<Rightarrow> string \<Rightarrow> bool" where
  "endswith s p = startswith (rev s) (rev p)"

fun str_contains :: "string \<Rightarrow> string \<Rightarrow> bool" where
  "str_contains sub [] = (sub = [])"
| "str_contains sub (x # xs) = (startswith (x # xs) sub \<or> str_contains sub xs)"

fun split_on :: "char \<Rightarrow> string \<Rightarrow> string list" where
  "split_on c [] = [[]]"
| "split_on c (x # xs) =
     (if x = c then [] # split_on c xs
      else (case split_on c xs of
              [] \<Rightarrow> [[x]]
            | y # ys \<Rightarrow> (x # y) # ys))"

text \<open>
  \<open>s.replace(old, new)\<close> replaces every non-overlapping occurrence, scanning from the
  left. With an empty \<open>old\<close> Python puts \<open>new\<close> before every character and at the end.
\<close>

function replace_nonempty :: "string \<Rightarrow> string \<Rightarrow> string \<Rightarrow> string" where
  "replace_nonempty old new s =
     (if s = [] \<or> old = [] then s
      else if startswith s old then new @ replace_nonempty old new (drop (length old) s)
      else hd s # replace_nonempty old new (tl s))"
  by pat_completeness auto
termination
  by (relation "measure (\<lambda>(old, new, s). length s)") auto

definition str_replace :: "string \<Rightarrow> string \<Rightarrow> string \<Rightarrow> string" where
  "str_replace s old new =
     (if old = [] then new @ concat (map (\<lambda>c. c # new) s)
      else replace_nonempty old new s)"

definition basename :: "string \<Rightarrow> string" where
  "basename p = last (split_on CHR ''/'' p)"

definition digit_char :: "nat \<Rightarrow> char" where
  "digit_char d = ''0123456789'' ! (d mod 10)"

fun str_nat :: "nat \<Rightarrow> string" where
  "str_nat n = (if n < 10 then [digit_char n] else str_nat (n div 10) @ [digit_char (n mod 10)])"

definition str_int :: "int \<Rightarrow> string" where
  "str_int i = (if i < 0 then CHR ''-'' # str_nat (nat (- i)) else str_nat (nat i))"

section \<open>Python values, faults and the backend\<close>

text \<open>
  Responses of the backend clients are JSON documents (and objects whose attributes are
  read like entries). A fault is an exception travelling up the Python stack:
  \<open>BackendError\<close> stands for whatever a client call raises, the others are raised by the
  interpreter on a bad subscript, membership test, method call or unpacking. \<open>Diverges\<close> marks
  the one place where a Python loop would not end.
\<close>

datatype json =
    JNull
  | JBool bool
  | JInt int
  | JStr string
  | JList "json list"
  | JObj "(string \<times> json) list"

datatype fault =
    BackendError string
  | KeyError string
  | IndexError
  | TypeError
  | AttributeError
  | ValueError
  | Diverges

text \<open>An argument that callers pass either as a number or as text.\<close>

datatype pyval = PInt int | PStr string

definition format_pyval :: "pyval \<Rightarrow> string" where
  "format_pyval v = (case v of PInt i \<Rightarrow> str_int i | PStr s \<Rightarrow> s)"

text \<open>\<open>v == s\<close> for a string \<open>s\<close>: a number never equals a string.\<close>

definition pyval_eq_str :: "pyval \<Rightarrow> string \<Rightarrow> bool" where
  "pyval_eq_str v s = (case v of PInt i \<Rightarrow> False | PStr t \<Rightarrow> t = s)"

text \<open>
  The requests the provider sends. The configured project, zone and region go with every
  request and are left out, except where the code passes something else.
\<close>

datatype call =
    ZoneOperationsGet json
  | RegionOperationsGet json
  | GlobalOperationsGet json
  | InstancesGet string
  | InstancesSetMachineType string json
  | InstancesUpdateAccessConfig string string json
  | InstancesUpdateNetworkInterface string string json
  | NetworksInsert json
  | SubnetworksInsert json
  | SubnetworksGet json string
  | FirewallsInsert json
  | FirewallsList
  | FirewallsDelete string
  | ForwardingRulesList
  | ForwardingRulesDelete string
  | AddressesGet string
  | AddressesInsert json
  | AddressesDelete string
  | RegionBackendServicesList
  | RegionBackendServicesDelete string
  | RegionHealthChecksList
  | RegionHealthChecksDelete string
  | HealthChecksList
  | HealthChecksDelete string
  | InstanceGroupsList
  | InstanceGroupsDelete string
  | DnsListZones
  | DnsListRecordSets json
  | DnsChangesCreate json "json list" "json list"
  | StorageListBuckets
  | StorageCreateBucket string
  | StorageGetBucket string
  | StorageAclGrantReadSave string

text \<open>A request is mutating when it asks the backend to create, change or delete.\<close>

fun mutating :: "call \<Rightarrow> bool" where
  "mutating (ZoneOperationsGet _) = False"
| "mutating (RegionOperationsGet _) = False"
| "mutating (GlobalOperationsGet _) = False"
| "mutating (InstancesGet _) = False"
| "mutating (SubnetworksGet _ _) = False"
| "mutating FirewallsList = False"
| "mutating ForwardingRulesList = False"
| "mutating (AddressesGet _) = False"
| "mutating RegionBackendServicesList = False"
| "mutating RegionHealthChecksList = False"
| "mutating HealthChecksList = False"
| "mutating InstanceGroupsList = False"
| "mutating DnsListZones = False"
| "mutating (DnsListRecordSets _) = False"
| "mutating StorageListBuckets = False"
| "mutating (StorageGetBucket _) = False"
| "mutating _ = True"

text \<open>Console output of \<open>pprint\<close>, \<open>warning\<close>, \<open>error\<close> and \<open>print\<close>: an f-string is kept as its pieces.\<close>

datatype piece = Lit string | Val json | Exc fault

datatype logline = Pprint "piece list" | Warning "piece list" | Error "piece list" | Print "piece list"

text \<open>
  The world a call runs in: the state of the remote backend, the requests sent so far,
  the time slept and the console. The backend itself is a function from its state and a
  request to a response or a fault and its next state; nothing is assumed about it.
\<close>

record 's world =
  remote :: 's
  trace :: "call list"
  clock :: nat
  console :: "logline list"

type_synonym 's backend = "'s \<Rightarrow> call \<Rightarrow> (fault + json) \<times> 's"

type_synonym ('s, 'a) exec = "'s world \<Rightarrow> (fault + 'a) \<times> 's world"

definition return :: "'a \<Rightarrow> ('s, 'a) exec" where
  "return x = (\<lambda>w. (Inr x, w))"

definition raise :: "fault \<Rightarrow> ('s, 'a) exec" where
  "raise e = (\<lambda>w. (Inl e, w))"

definition bind :: "('s, 'a) exec \<Rightarrow> ('a \<Rightarrow> ('s, 'b) exec) \<Rightarrow> ('s, 'b) exec" where
  "bind m f = (\<lambda>w. case m w of (Inl e, w') \<Rightarrow> (Inl e, w') | (Inr x, w') \<Rightarrow> f x w')"

text \<open>\<open>try: m except: h\<close>; a bare \<open>except\<close> and \<open>except Exception\<close> catch every fault here.\<close>

definition try_except :: "('s, 'a) exec \<Rightarrow> (fault \<Rightarrow> ('s, 'a) exec) \<Rightarrow> ('s, 'a) exec" where
  "try_except m h = (\<lambda>w. case m w of (Inl e, w') \<Rightarrow> h e w' | (Inr x, w') \<Rightarrow> (Inr x, w'))"

definition lift :: "fault + 'a \<Rightarrow> ('s, 'a) exec" where
  "lift r = (\<lambda>w. (r, w))"

definition execute :: "'s backend \<Rightarrow> call \<Rightarrow> ('s, json) exec" where
  "execute B c = (\<lambda>w. case B (remote w) c of
                        (r, s') \<Rightarrow> (r, w\<lparr>remote := s', trace := trace w @ [c]\<rparr>))"

definition sleep :: "nat \<Rightarrow> ('s, unit) exec" where
  "sleep n = (\<lambda>w. (Inr (), w\<lparr>clock := clock w + n\<rparr>))"

definition say :: "logline \<Rightarrow> ('s, unit) exec" where
  "say l = (\<lambda>w. (Inr (), w\<lparr>console := console w @ [l]\<rparr>))"

subsection \<open>Subscripts and membership\<close>

fun getitem :: "json \<Rightarrow> string \<Rightarrow> fault + json" where
  "getitem (JObj kvs) k = (case map_of kvs k of None \<Rightarrow> Inl (KeyError k) | Some v \<Rightarrow> Inr v)"
| "getitem _ k = Inl TypeError"

fun getindex :: "json \<Rightarrow> nat \<Rightarrow> fault + json" where
  "getindex (JList xs) i = (if i < length xs then Inr (xs ! i) else Inl IndexError)"
| "getindex (JStr s) i = (if i < length s then Inr (JStr [s ! i]) else Inl IndexError)"
| "getindex (JObj kvs) i = Inl (KeyError (str_nat i))"
| "getindex _ i = Inl TypeError"

text \<open>\<open>k in v\<close>: a key of a dictionary, an element of a list, a substring of a string.\<close>

fun py_in :: "string \<Rightarrow> json \<Rightarrow> fault + bool" where
  "py_in k (JObj kvs) = Inr (map_of kvs k \<noteq> None)"
| "py_in k (JList xs) = Inr (JStr k \<in> set xs)"
| "py_in k (JStr s) = Inr (str_contains k s)"
| "py_in k _ = Inl TypeError"

text \<open>\<open>d.get(k, default)\<close> and \<open>d.get(k)\<close> on a dictionary.\<close>

fun get_default :: "json \<Rightarrow> string \<Rightarrow> json \<Rightarrow> fault + json" where
  "get_default (JObj kvs) k d = (case map_of kvs k of None \<Rightarrow> Inr d | Some v \<Rightarrow> Inr v)"
| "get_default _ k d = Inl AttributeError"

text \<open>A value on which the code calls a string method, and one it passes to \<open>os.path\<close>.\<close>

fun as_str :: "json \<Rightarrow> fault + string" where
  "as_str (JStr s) = Inr s"
| "as_str _ = Inl AttributeError"

fun as_path :: "json \<Rightarrow> fault + string" where
  "as_path (JStr s) = Inr s"
| "as_path _ = Inl TypeError"

text \<open>A value iterated over by \<open>for x in v\<close>, as the list of its elements.\<close>

fun as_list :: "json \<Rightarrow> fault + json list" where
  "as_list (JList xs) = Inr xs"
| "as_list (JObj kvs) = Inr (map (\<lambda>kv. JStr (fst kv)) kvs)"
| "as_list (JStr s) = Inr (map (\<lambda>c. JStr [c]) s)"
| "as_list _ = Inl TypeError"

text \<open>The provider object: the fields \<open>__init__\<close> sets.\<close>

record kgcp =
  project :: string
  zone :: string
  region :: string
  debug :: bool
  public :: bool
  xproject :: "string option"

text \<open>
  The tagged result \<open>{'result': 'success'}\<close> or \<open>{'result': 'failure', 'reason': ...}\<close>;
  the reason is an f-string, kept as its pieces.
\<close>

datatype result = Success | Failure "piece list"

text \<open>Truth of a value in \<open>if v\<close> and \<open>v or w\<close>.\<close>

fun truthy :: "json \<Rightarrow> bool" where
  "truthy JNull = False"
| "truthy (JBool b) = b"
| "truthy (JInt i) = (i \<noteq> 0)"
| "truthy (JStr s) = (s \<noteq> [])"
| "truthy (JList xs) = (xs \<noteq> [])"
| "truthy (JObj kvs) = (kvs \<noteq> [])"

text \<open>\<open>a, b = xs\<close>: unpacking into two names needs exactly two elements.\<close>

fun unpack2 :: "'a list \<Rightarrow> fault + ('a \<times> 'a)" where
  "unpack2 [a, b] = Inr (a, b)"
| "unpack2 _ = Inl ValueError"

text \<open>The requests a run added to the trace, and whether none of them is mutating.\<close>

definition calls_made :: "'s world \<Rightarrow> 's world \<Rightarrow> call list" where
  "calls_made w w' = drop (length (trace w)) (trace w')"

definition no_mutation :: "'s world \<Rightarrow> 's world \<Rightarrow> bool" where
  "no_mutation w w' = (filter mutating (calls_made w w') = [])"

section \<open>The operation waiter\<close>

text \<open>
  \<open>_wait_for_operation\<close>. \<open>report_error\<close> is the last statement of the loop body, the
  report of an error payload found in the polled operation.
\<close>

definition poll_operation :: "'s backend \<Rightarrow> json \<Rightarrow> json \<Rightarrow> ('s, json) exec" where
  "poll_operation B selflink operation =
     bind (lift (py_in ''zone'' selflink)) (\<lambda>zonal.
       if zonal then execute B (ZoneOperationsGet operation)
       else
         bind (lift (py_in ''region'' selflink)) (\<lambda>regional.
           if regional then execute B (RegionOperationsGet operation)
           else execute B (GlobalOperationsGet operation)))"

definition report_error :: "json \<Rightarrow> ('s, unit) exec" where
  "report_error check =
     bind (lift (py_in ''httpErrorMessage'' check)) (\<lambda>present.
       if present then
         bind (lift (getitem check ''httpErrorMessage'')) (\<lambda>httperror.
         bind (lift (getitem check ''error'')) (\<lambda>err.
         bind (lift (getitem err ''errors'')) (\<lambda>errs.
         bind (lift (getindex errs 0)) (\<lambda>first.
         bind (lift (getitem first ''code'')) (\<lambda>code.
         bind (lift (getitem first ''message'')) (\<lambda>message.
           say (Error [Lit ''Got '', Val httperror, Lit '' Code '', Val code,
                       Lit '' Error '', Val message])))))))
       else return ())"

function wait_loop :: "'s backend \<Rightarrow> json \<Rightarrow> json \<Rightarrow> nat \<Rightarrow> ('s, unit) exec" where
  "wait_loop B selflink operation timeout =
     (if timeout > 60 then return ()
      else
        bind (poll_operation B selflink operation) (\<lambda>check.
        bind (lift (getitem check ''status'')) (\<lambda>status.
          if status = JStr ''DONE'' then report_error check
          else
            bind (sleep 1) (\<lambda>_.
            bind (report_error check) (\<lambda>_.
              wait_loop B selflink operation (timeout + 1))))))"
  by pat_completeness auto
termination
  by (relation "measure (\<lambda>(B, selflink, operation, timeout). 61 - timeout)") auto

definition wait_for_operation :: "'s backend \<Rightarrow> json \<Rightarrow> ('s, unit) exec" where
  "wait_for_operation B operation =
     bind (lift (getitem operation ''selfLink'')) (\<lambda>selflink.
     bind (lift (getitem operation ''name'')) (\<lambda>opname.
       wait_loop B selflink opname 0))"

section \<open>Instances: existence probe, creation, resizing\<close>

definition exists :: "'s backend \<Rightarrow> string \<Rightarrow> ('s, bool) exec" where
  "exists B name =
     try_except
       (bind (execute B (InstancesGet name)) (\<lambda>_. return True))
       (\<lambda>_. return False)"

text \<open>
  \<open>create\<close>, from the shape test to the machine type (the \<open>if flavor is None\<close> statement
  and the assignment after it): the failure \<open>create\<close> returns there, or the machine type it
  goes on with. \<open>memory < 921.6\<close> on an integer is \<open>memory * 10 < 9216\<close>.
\<close>

definition machine_type_for :: "kgcp \<Rightarrow> string option \<Rightarrow> int \<Rightarrow> int \<Rightarrow> ('s, result + string) exec" where
  "machine_type_for self flavor numcpus memory =
     (case flavor of
        None \<Rightarrow>
          if numcpus \<noteq> 1 \<and> numcpus mod 2 \<noteq> 0 then
            return (Inl (Failure [Lit ''Number of cpus is not even'']))
          else if memory \<noteq> 512 \<and> memory mod 1024 \<noteq> 0 then
            return (Inl (Failure [Lit ''Memory is not multiple of 1024'']))
          else
            bind (if numcpus > 1 \<and> memory < 2048 then
                    bind (say (Pprint [Lit ''Rounding memory to 2048Mb as more than one cpu is used'']))
                      (\<lambda>_. return 2048)
                  else return memory) (\<lambda>memory.
            bind (if memory * 10 < 9216 then
                    bind (say (Pprint [Lit ''Rounding memory to 1024Mb''])) (\<lambda>_. return ''f1-micro'')
                  else return (''custom-'' @ str_int numcpus @ ''-'' @ str_int memory)) (\<lambda>machine_type.
              return (Inr (''zones/'' @ zone self @ ''/machineTypes/'' @ machine_type))))
      | Some f \<Rightarrow> return (Inr (''zones/'' @ zone self @ ''/machineTypes/'' @ f)))"

text \<open>
  \<open>create\<close>. The statements after the machine type is known (assembling the body, the
  disks, the firewall rule, the insertion of the instance and the DNS reservation) are
  the continuation \<open>rest\<close>, which receives the machine type.
\<close>

definition create :: "'s backend \<Rightarrow> kgcp \<Rightarrow> string \<Rightarrow> string option \<Rightarrow> int \<Rightarrow> int \<Rightarrow>
    (string \<Rightarrow> ('s, result) exec) \<Rightarrow> ('s, result) exec" where
  "create B self name flavor numcpus memory rest =
     bind (exists B name) (\<lambda>found.
       if found then return (Failure [Lit ''VM '', Lit name, Lit '' already exists''])
       else
         bind (machine_type_for self flavor numcpus memory) (\<lambda>shape.
           case shape of
             Inl failure \<Rightarrow> return failure
           | Inr machine_type \<Rightarrow> rest machine_type))"

text \<open>The lookup that opens each resize: the instance, or nothing after the error line.\<close>

definition lookup_vm :: "'s backend \<Rightarrow> string \<Rightarrow> ('s, json option) exec" where
  "lookup_vm B name =
     try_except
       (bind (execute B (InstancesGet name)) (\<lambda>vm. return (Some vm)))
       (\<lambda>_. bind (say (Error [Lit ''VM '', Lit name, Lit '' not found''])) (\<lambda>_. return None))"

definition machine_types_url :: "kgcp \<Rightarrow> string" where
  "machine_types_url self =
     ''https://www.googleapis.com/compute/v1/projects/'' @ project self @ ''/zones/'' @ zone self
       @ ''/machineTypes''"

definition update_flavor :: "'s backend \<Rightarrow> kgcp \<Rightarrow> string \<Rightarrow> string \<Rightarrow> ('s, result) exec" where
  "update_flavor B self name flavor =
     bind (lookup_vm B name) (\<lambda>found.
       case found of
         None \<Rightarrow> return (Failure [Lit ''VM '', Lit name, Lit '' not found''])
       | Some vm \<Rightarrow>
           bind (lift (getitem vm ''status'')) (\<lambda>status.
             if status = JStr ''RUNNING'' \<or> status = JStr ''STOPPING'' then
               bind (say (Error [Lit ''Can't update flavor of VM '', Lit name, Lit '' while up'']))
                 (\<lambda>_. return (Failure [Lit ''VM '', Lit name, Lit '' up'']))
             else
               bind (lift (getitem vm ''machineType'')) (\<lambda>mt.
               bind (lift (as_path mt)) (\<lambda>path.
                 if basename path = flavor then return Success
                 else
                   bind (execute B (InstancesSetMachineType name
                           (JObj [(''machineType'', JStr (machine_types_url self @ ''/'' @ flavor))])))
                     (\<lambda>_. return Success)))))"

definition update_memory :: "'s backend \<Rightarrow> kgcp \<Rightarrow> string \<Rightarrow> pyval \<Rightarrow> ('s, result) exec" where
  "update_memory B self name memory =
     bind (lookup_vm B name) (\<lambda>found.
       case found of
         None \<Rightarrow> return (Failure [Lit ''VM '', Lit name, Lit '' not found''])
       | Some vm \<Rightarrow>
           bind (lift (getitem vm ''status'')) (\<lambda>status.
             if status = JStr ''RUNNING'' \<or> status = JStr ''STOPPING'' then
               bind (say (Error [Lit ''Can't update memory of VM '', Lit name, Lit '' while up'']))
                 (\<lambda>_. return (Failure [Lit ''VM '', Lit name, Lit '' up'']))
             else
               bind (lift (getitem vm ''machineType'')) (\<lambda>mt.
               bind (lift (as_path mt)) (\<lambda>path.
                 if str_contains ''custom'' (basename path) then
                   bind (lift (unpack2 (tl (split_on CHR ''-'' (basename path))))) (\<lambda>(currentcpus, currentmemory).
                     if pyval_eq_str memory currentmemory then return Success
                     else
                       bind (execute B (InstancesSetMachineType name
                               (JObj [(''machineType'', JStr (machine_types_url self @ ''/custom-''
                                        @ currentcpus @ ''-'' @ format_pyval memory))])))
                         (\<lambda>_. return Success))
                 else
                   bind (say (Warning [Lit ''No custom machine type found. Not updating memory of '', Lit name]))
                     (\<lambda>_. return Success)))))"

definition update_cpus :: "'s backend \<Rightarrow> kgcp \<Rightarrow> string \<Rightarrow> pyval \<Rightarrow> ('s, result) exec" where
  "update_cpus B self name numcpus =
     bind (lookup_vm B name) (\<lambda>found.
       case found of
         None \<Rightarrow> return (Failure [Lit ''VM '', Lit name, Lit '' not found''])
       | Some vm \<Rightarrow>
           bind (lift (getitem vm ''status'')) (\<lambda>status.
             if status = JStr ''RUNNING'' \<or> status = JStr ''STOPPING'' then
               bind (say (Error [Lit ''Can't update cpus of VM '', Lit name, Lit '' while up'']))
                 (\<lambda>_. return (Failure [Lit ''VM '', Lit name, Lit '' up'']))
             else
               bind (lift (getitem vm ''machineType'')) (\<lambda>mt.
               bind (lift (as_path mt)) (\<lambda>path.
                 if str_contains ''custom'' (basename path) then
                   bind (lift (unpack2 (tl (split_on CHR ''-'' (basename path))))) (\<lambda>(currentcpus, currentmemory).
                     if pyval_eq_str numcpus currentcpus then return Success
                     else
                       bind (execute B (InstancesSetMachineType name
                               (JObj [(''machineType'', JStr (machine_types_url self @ ''/custom-''
                                        @ format_pyval numcpus @ ''-'' @ currentmemory))])))
                         (\<lambda>_. return Success))
                 else
                   bind (say (Warning [Lit ''No custom machine type found. Not updating memory of '', Lit name]))
                     (\<lambda>_. return Success)))))"

section \<open>Networks\<close>

text \<open>
  \<open>create_network\<close>. \<open>ip_network\<close> is the validator of Python's \<open>ipaddress\<close> module, a
  parameter here: true when it accepts the value, false when it raises.
\<close>

definition subnet_body :: "kgcp \<Rightarrow> (json \<Rightarrow> bool) \<Rightarrow> string \<Rightarrow> json \<Rightarrow> json \<Rightarrow> json
    \<Rightarrow> ('s, result + json) exec" where
  "subnet_body self ip_network name cidr networkpath overrides =
     bind (lift (py_in ''dual_cidr'' overrides)) (\<lambda>has_dual.
       if has_dual then
         bind (lift (getitem overrides ''dual_cidr'')) (\<lambda>dual_cidr.
           if \<not> ip_network dual_cidr then
             return (Inl (Failure [Lit ''Invalid Dual Cidr '', Val dual_cidr]))
           else
             bind (lift (get_default overrides ''dual_name'' JNull)) (\<lambda>given.
               return (Inr (JObj
                 [(''name'', JStr name), (''ipCidrRange'', cidr), (''network'', networkpath),
                  (''region'', JStr (''https://www.googleapis.com/compute/v1/projects/'' @ project self
                                      @ ''/regions/'' @ region self)),
                  (''secondaryIpRanges'', JList [JObj
                     [(''rangeName'', if truthy given then given else JStr (''dual-'' @ name)),
                      (''ipCidrRange'', dual_cidr)]])]))))
       else
         return (Inr (JObj
           [(''name'', JStr name), (''ipCidrRange'', cidr), (''network'', networkpath),
            (''region'', JStr (''https://www.googleapis.com/compute/v1/projects/'' @ project self
                                @ ''/regions/'' @ region self))])))"

definition create_network :: "'s backend \<Rightarrow> kgcp \<Rightarrow> (json \<Rightarrow> bool) \<Rightarrow> string \<Rightarrow> json \<Rightarrow> json
    \<Rightarrow> ('s, result) exec" where
  "create_network B self ip_network name cidr overrides =
     bind (execute B (NetworksInsert
             (JObj [(''name'', JStr name), (''autoCreateSubnetworks'', JBool (cidr = JNull))]))) (\<lambda>operation.
     bind (wait_for_operation B operation) (\<lambda>_.
     bind (lift (get_default overrides ''create_subnet'' (JBool True))) (\<lambda>create_subnet.
     bind (if truthy create_subnet \<and> cidr \<noteq> JNull then
             if \<not> ip_network cidr then return (Some (Failure [Lit ''Invalid Cidr '', Val cidr]))
             else
               bind (lift (getitem operation ''targetLink'')) (\<lambda>networkpath.
               bind (subnet_body self ip_network name cidr networkpath overrides) (\<lambda>body.
                 case body of
                   Inl failure \<Rightarrow> return (Some failure)
                 | Inr subnet \<Rightarrow>
                     bind (execute B (SubnetworksInsert subnet)) (\<lambda>operation.
                     bind (wait_for_operation B operation) (\<lambda>_. return None))))
           else return None) (\<lambda>returned.
       case returned of
         Some failure \<Rightarrow> return failure
       | None \<Rightarrow>
           bind (execute B (FirewallsInsert
                   (JObj [(''name'', JStr (''allow-ssh-'' @ name)),
                          (''network'', JStr (''global/networks/'' @ name)),
                          (''sourceRanges'', JList [JStr ''0.0.0.0/0'']),
                          (''allowed'', JList [JObj [(''IPProtocol'', JStr ''tcp''),
                                                     (''ports'', JList [JStr ''22''])]])])))
             (\<lambda>_. return Success)))))"

section \<open>DNS records\<close>

text \<open>\<open>sep.join(xs)\<close>, an attribute of a client object (\<open>None\<close> when unset), and the
  sequencing of steps that may raise but touch nothing.\<close>

fun str_join :: "string \<Rightarrow> string list \<Rightarrow> string" where
  "str_join sep [] = []"
| "str_join sep [x] = x"
| "str_join sep (x # y # ys) = x @ sep @ str_join sep (y # ys)"

definition attr :: "json \<Rightarrow> string \<Rightarrow> json" where
  "attr obj k = (case getitem obj k of Inl _ \<Rightarrow> JNull | Inr v \<Rightarrow> v)"

definition sbind :: "fault + 'a \<Rightarrow> ('a \<Rightarrow> fault + 'b) \<Rightarrow> fault + 'b" where
  "sbind r f = (case r of Inl e \<Rightarrow> Inl e | Inr x \<Rightarrow> f x)"

text \<open>
  The cluster-prefix rule, the same four statements in \<open>reserve_dns\<close> and \<open>delete_dns\<close>:
  the cluster (or \<open>None\<close>), the name and the domain they go on with. The fully-qualified
  name holds a dot, so its split at dots has a second element.
\<close>

definition cluster_rule :: "string \<Rightarrow> string \<Rightarrow> string option \<times> string \<times> string" where
  "cluster_rule name domain =
     (let fqdn = name @ ''.'' @ domain in
      if hd (split_on CHR ''-'' fqdn) = split_on CHR ''.'' fqdn ! 1 then
        (let cluster = hd (split_on CHR ''-'' fqdn);
             name' = str_join ''.'' (take 1 (split_on CHR ''.'' fqdn));
             domain' = str_replace (str_replace fqdn (name' @ ''.'') []) (cluster @ ''.'') []
         in (Some cluster, name', domain'))
      else (None, name, domain))"

definition dns_entry :: "string option \<Rightarrow> string \<Rightarrow> string" where
  "dns_entry cluster name = (case cluster of None \<Rightarrow> name | Some c \<Rightarrow> name @ ''.'' @ c)"

definition zones_for :: "string \<Rightarrow> json list \<Rightarrow> json list" where
  "zones_for domain zs =
     filter (\<lambda>z. attr z ''dns_name'' = JStr (domain @ ''.'') \<or> attr z ''name'' = JStr domain) zs"

definition record_set :: "json \<Rightarrow> json \<Rightarrow> json \<Rightarrow> json \<Rightarrow> json" where
  "record_set name record_type ttl rrdatas =
     JObj [(''name'', name), (''record_type'', record_type), (''ttl'', ttl), (''rrdatas'', rrdatas)]"

text \<open>\<open>ip\<close> and \<open>internalip\<close>: the address of an instance, \<open>None\<close> (here \<open>JNull\<close>) when it has none.\<close>

definition lookup_instance :: "'s backend \<Rightarrow> string \<Rightarrow> ('s, json option) exec" where
  "lookup_instance B name =
     try_except
       (bind (execute B (InstancesGet name)) (\<lambda>vm. return (Some vm)))
       (\<lambda>_. bind (say (Error [Lit ''Vm '', Lit name, Lit '' not found''])) (\<lambda>_. return None))"

definition ip_of :: "'s backend \<Rightarrow> kgcp \<Rightarrow> string \<Rightarrow> ('s, json) exec" where
  "ip_of B self name =
     bind (lookup_instance B name) (\<lambda>found.
       case found of
         None \<Rightarrow> return JNull
       | Some vm \<Rightarrow>
           bind (lift (getitem vm ''networkInterfaces'')) (\<lambda>nics.
           bind (lift (getindex nics 0)) (\<lambda>nic.
             if \<not> public self then lift (getitem nic ''networkIP'')
             else
               bind (lift (getitem nic ''accessConfigs'')) (\<lambda>configs.
               bind (lift (getindex configs 0)) (\<lambda>config.
               bind (lift (py_in ''natIP'' config)) (\<lambda>has_nat.
                 if \<not> has_nat then return JNull else lift (getitem config ''natIP'')))))))"

definition internalip :: "'s backend \<Rightarrow> string \<Rightarrow> ('s, json) exec" where
  "internalip B name =
     bind (lookup_instance B name) (\<lambda>found.
       case found of
         None \<Rightarrow> return JNull
       | Some vm \<Rightarrow>
           bind (lift (getitem vm ''networkInterfaces'')) (\<lambda>nics.
           bind (lift (getindex nics 0)) (\<lambda>nic.
           bind (lift (py_in ''networkIP'' nic)) (\<lambda>has_ip.
             if \<not> has_ip then return JNull else lift (getitem nic ''networkIP'')))))"

text \<open>
  The two polls of \<open>reserve_dns\<close>: \<open>while counter != 100\<close> with the counter going up by 10
  from 0. A counter above 100 is never reached; there the Python loop would not end, which
  is the fault \<open>Diverges\<close> here.
\<close>

function internalip_loop :: "'s backend \<Rightarrow> string \<Rightarrow> nat \<Rightarrow> ('s, json) exec" where
  "internalip_loop B name counter =
     (if counter = 100 then return JNull
      else if counter > 100 then raise Diverges
      else
        bind (internalip B name) (\<lambda>found.
          if found = JNull then
            bind (sleep 5) (\<lambda>_.
            bind (say (Pprint [Lit ''Waiting 5 seconds to grab internal ip and create DNS record for '',
                               Lit name])) (\<lambda>_.
              internalip_loop B name (counter + 10)))
          else return found))"
  by pat_completeness auto
termination
  by (relation "measure (\<lambda>(B, name, counter). 100 - counter)") auto

function ip_loop :: "'s backend \<Rightarrow> kgcp \<Rightarrow> string \<Rightarrow> nat \<Rightarrow> ('s, json) exec" where
  "ip_loop B self name counter =
     (if counter = 100 then return JNull
      else if counter > 100 then raise Diverges
      else
        bind (ip_of B self name) (\<lambda>ip.
          if ip = JNull then
            bind (sleep 5) (\<lambda>_.
            bind (say (Pprint [Lit ''Waiting 5 seconds to grab ip and create DNS record for '',
                               Lit name])) (\<lambda>_.
              ip_loop B self name (counter + 10)))
          else
            bind (execute B (AddressesInsert (JObj [(''name'', JStr name), (''address'', ip)]))) (\<lambda>_.
            bind (execute B (InstancesUpdateAccessConfig name ''nic0'' (JObj [(''natIP'', ip)]))) (\<lambda>_.
              return ip))))"
  by pat_completeness auto
termination
  by (relation "measure (\<lambda>(B, self, name, counter). 100 - counter)") auto

text \<open>The internal address is looked for only for a control-plane or worker node of a cluster.\<close>

definition cluster_node :: "string option \<Rightarrow> string \<Rightarrow> bool" where
  "cluster_node cluster name =
     (cluster \<noteq> None \<and> (str_contains ''ctlplane'' name \<or> str_contains ''worker'' name))"

definition grab_internalip :: "'s backend \<Rightarrow> string option \<Rightarrow> string \<Rightarrow> ('s, json) exec" where
  "grab_internalip B cluster name =
     (if cluster_node cluster name then internalip_loop B name 0 else return JNull)"

text \<open>The address of the record when none was passed: the one of the first net, or the polled one.\<close>

definition resolve_ip :: "'s backend \<Rightarrow> kgcp \<Rightarrow> string \<Rightarrow> json list \<Rightarrow> json \<Rightarrow> ('s, json) exec" where
  "resolve_ip B self name nets ip =
     (if ip = JNull then
        bind (lift (getindex (JList nets) 0)) (\<lambda>net.
        bind (case net of JObj kvs \<Rightarrow> lift (get_default net ''ip'' JNull) | _ \<Rightarrow> return ip) (\<lambda>ip.
          if ip = JNull then ip_loop B self name 0 else return ip))
      else return ip)"

text \<open>The record of one alias.\<close>

definition alias_record :: "string option \<Rightarrow> string \<Rightarrow> string \<Rightarrow> json \<Rightarrow> string \<Rightarrow> string \<Rightarrow> json" where
  "alias_record cluster name domain ip entry a =
     (if a = ''*'' then
        record_set
          (JStr (case cluster of
                   Some c \<Rightarrow>
                     if str_contains ''ctlplane'' name \<or> str_contains ''worker'' name
                     then ''*.apps.'' @ c @ ''.'' @ domain @ ''.''
                     else ''*.'' @ name @ ''.'' @ domain @ ''.''
                 | None \<Rightarrow> ''*.'' @ name @ ''.'' @ domain @ ''.''))
          (JStr ''A'') (JInt 300) (JList [ip])
      else
        record_set
          (JStr (if \<not> str_contains ''.'' a then a @ ''.'' @ domain @ ''.'' else a @ ''.''))
          (JStr ''CNAME'') (JInt 300) (JList [JStr entry]))"

text \<open>
  \<open>reserve_dns\<close>. \<open>str_of\<close> is Python's \<open>str\<close> on a value that is not a string, needed when
  no domain is passed and the first net is not a name. The result is the tagged result,
  or \<open>None\<close> where the method returns nothing.
\<close>

definition reserve_dns :: "'s backend \<Rightarrow> kgcp \<Rightarrow> (json \<Rightarrow> string) \<Rightarrow> string \<Rightarrow> json list \<Rightarrow> string option
    \<Rightarrow> json \<Rightarrow> string list \<Rightarrow> ('s, result option) exec" where
  "reserve_dns B self str_of name0 nets domain0 ip0 alias =
     bind (case domain0 of
             Some d \<Rightarrow> return d
           | None \<Rightarrow> bind (lift (getindex (JList nets) 0))
                       (\<lambda>d. return (case d of JStr text \<Rightarrow> text | _ \<Rightarrow> str_of d))) (\<lambda>domain1.
     case cluster_rule name0 domain1 of (cluster, name, domain) \<Rightarrow>
       bind (execute B DnsListZones) (\<lambda>listed.
       bind (lift (as_list listed)) (\<lambda>zones.
         if zones_for domain zones = [] then
           bind (say (Error [Lit ''Domain '', Lit domain, Lit '' not found'']))
             (\<lambda>_. return (Some (Failure [Lit ''Domain '', Lit domain, Lit '' not found''])))
         else
           bind (grab_internalip B cluster name) (\<lambda>internal.
           bind (resolve_ip B self name nets ip0) (\<lambda>ip.
             if ip = JNull then
               bind (say (Error [Lit ''Couldn't assign DNS for '', Lit name])) (\<lambda>_. return None)
             else
               bind (execute B (DnsChangesCreate (hd (zones_for domain zones))
                       (record_set (JStr (dns_entry cluster name @ ''.'' @ domain @ ''.'')) (JStr ''A'') (JInt 300)
                          (JList [if internal = JNull then ip else internal])
                        # map (alias_record cluster name domain ip
                                 (dns_entry cluster name @ ''.'' @ domain @ ''.'')) alias)
                       []))
                 (\<lambda>_. return (Some Success)))))))"

text \<open>
  \<open>delete_dns\<close>. \<open>select_records\<close> is its loop over the record sets of the zone: a record
  is taken once when its name matches, else once for each of its data that holds the name.
\<close>

fun rrdata_hits :: "string \<Rightarrow> json list \<Rightarrow> fault + nat" where
  "rrdata_hits name [] = Inr 0"
| "rrdata_hits name (d # ds) =
     sbind (py_in name d) (\<lambda>hit.
     sbind (rrdata_hits name ds) (\<lambda>n. Inr (if hit then Suc n else n)))"

fun select_records :: "string \<Rightarrow> string option \<Rightarrow> string \<Rightarrow> string \<Rightarrow> json list \<Rightarrow> fault + json list" where
  "select_records entry cluster name domain [] = Inr []"
| "select_records entry cluster name domain (r # rs) =
     sbind (py_in entry (attr r ''name'')) (\<lambda>named.
     sbind (if named then Inr True
            else if str_contains ''ctlplane-0'' name then
              sbind (as_str (attr r ''name''))
                (\<lambda>n. Inr (endswith n ((case cluster of None \<Rightarrow> ''None'' | Some c \<Rightarrow> c) @ ''.'' @ domain @ ''.'')))
            else Inr False) (\<lambda>taken.
     sbind (if taken then Inr [r]
            else sbind (as_list (attr r ''rrdatas'')) (\<lambda>ds.
                 sbind (rrdata_hits name ds) (\<lambda>n. Inr (replicate n r)))) (\<lambda>these.
     sbind (select_records entry cluster name domain rs) (\<lambda>those. Inr (these @ those)))))"

definition delete_dns :: "'s backend \<Rightarrow> kgcp \<Rightarrow> string \<Rightarrow> string \<Rightarrow> ('s, result option) exec" where
  "delete_dns B self name0 domain0 =
     (case cluster_rule name0 domain0 of (cluster, name, domain) \<Rightarrow>
       bind (execute B DnsListZones) (\<lambda>listed.
       bind (lift (as_list listed)) (\<lambda>zones.
         if zones_for domain zones = [] then return None
         else
           bind (execute B (DnsListRecordSets (hd (zones_for domain zones)))) (\<lambda>sets.
           bind (lift (as_list sets)) (\<lambda>all_records.
           bind (lift (select_records (dns_entry cluster name @ ''.'' @ domain @ ''.'') cluster name domain
                         all_records)) (\<lambda>records.
           bind (if records \<noteq> [] then
                   bind (execute B (DnsChangesCreate (hd (zones_for domain zones)) []
                           (map (\<lambda>r. record_set (attr r ''name'') (attr r ''record_type'') (attr r ''ttl'')
                                        (attr r ''rrdatas'')) records)))
                     (\<lambda>_. return ())
                 else return ()) (\<lambda>_.
           bind (try_except (bind (execute B (AddressesDelete name)) (\<lambda>_. return ())) (\<lambda>_. return ())) (\<lambda>_.
             return (Some Success)))))))))"

section \<open>Load balancers: teardown\<close>

text \<open>\<open>for x in xs: body\<close>, stopping at the first fault.\<close>

fun for_each :: "'a list \<Rightarrow> ('a \<Rightarrow> ('s, unit) exec) \<Rightarrow> ('s, unit) exec" where
  "for_each [] body = return ()"
| "for_each (x # xs) body = bind (body x) (\<lambda>_. for_each xs body)"

text \<open>
  Four loops of \<open>delete_loadbalancer\<close> have one shape and differ in the collection and in
  the line they print: list the collection, and for every item whose name is the name,
  print, delete it and wait for the operation. They are the firewall rules, the regional
  backend services, the regional health checks and the health checks.
\<close>

definition delete_listed :: "'s backend \<Rightarrow> call \<Rightarrow> (string \<Rightarrow> call) \<Rightarrow> string \<Rightarrow> string \<Rightarrow> ('s, unit) exec" where
  "delete_listed B list_call delete_call label name =
     bind (execute B list_call) (\<lambda>listing.
     bind (lift (get_default listing ''items'' (JList []))) (\<lambda>items.
     bind (lift (as_list items)) (\<lambda>xs.
       for_each xs (\<lambda>item.
         bind (lift (getitem item ''name'')) (\<lambda>item_name.
           if item_name = JStr name then
             bind (say (Pprint [Lit label, Lit name])) (\<lambda>_.
             bind (execute B (delete_call name)) (\<lambda>operation.
               wait_for_operation B operation))
           else return ())))))"

text \<open>\<open>[f for f in items if f['name'] == name]\<close>.\<close>

fun named_items :: "json list \<Rightarrow> string \<Rightarrow> fault + json list" where
  "named_items [] name = Inr []"
| "named_items (f # fs) name =
     sbind (getitem f ''name'') (\<lambda>n.
     sbind (named_items fs name) (\<lambda>rest. Inr (if n = JStr name then f # rest else rest)))"

text \<open>The wait for a deleted forwarding rule to leave the listing: 5 units at a time, up to 60.\<close>

function gone_loop :: "'s backend \<Rightarrow> string \<Rightarrow> nat \<Rightarrow> ('s, unit) exec" where
  "gone_loop B rule_name timeout =
     (if timeout \<ge> 60 then say (Warning [Lit ''Timeout waiting for forwarding rule to be gone''])
      else
        bind (execute B ForwardingRulesList) (\<lambda>listing.
        bind (lift (get_default listing ''items'' (JList []))) (\<lambda>items.
          if \<not> truthy items then return ()
          else
            bind (lift (as_list items)) (\<lambda>xs.
            bind (lift (named_items xs rule_name)) (\<lambda>still.
              if still = [] then return ()
              else bind (sleep 5) (\<lambda>_. gone_loop B rule_name (timeout + 5)))))))"
  by pat_completeness auto
termination
  by (relation "measure (\<lambda>(B, rule_name, timeout). 60 - timeout)") auto

definition delete_forwarding_rules :: "'s backend \<Rightarrow> string \<Rightarrow> ('s, unit) exec" where
  "delete_forwarding_rules B name =
     bind (execute B ForwardingRulesList) (\<lambda>listing.
     bind (lift (get_default listing ''items'' (JList []))) (\<lambda>items.
     bind (lift (as_list items)) (\<lambda>xs.
       for_each xs (\<lambda>item.
         bind (lift (getitem item ''name'')) (\<lambda>item_name.
         bind (lift (as_str item_name)) (\<lambda>rule_name.
           if rule_name = name \<or> startswith rule_name (name @ ''-'') then
             bind (say (Pprint [Lit ''Deleting forwarding rule '', Lit rule_name])) (\<lambda>_.
             bind (execute B (ForwardingRulesDelete rule_name)) (\<lambda>operation.
             bind (wait_for_operation B operation) (\<lambda>_.
             bind (say (Pprint [Lit ''Waiting to make sure forwarding rule is gone''])) (\<lambda>_.
               gone_loop B rule_name 0))))
           else return ()))))))"

text \<open>
  The address and its DNS record, inside one \<open>try\<close>: whatever is raised there is printed
  when debugging and dropped.
\<close>

definition delete_address :: "'s backend \<Rightarrow> kgcp \<Rightarrow> string \<Rightarrow> ('s, unit) exec" where
  "delete_address B self name =
     try_except
       (bind (execute B (AddressesGet name)) (\<lambda>address.
        bind (lift (py_in ''labels'' address)) (\<lambda>has_labels.
        bind (if has_labels then
                bind (lift (getitem address ''labels'')) (\<lambda>labels.
                bind (lift (py_in ''domain'' labels)) (\<lambda>has_domain.
                  if has_domain then
                    bind (lift (py_in ''dnsclient'' labels)) (\<lambda>has_client. return (\<not> has_client))
                  else return False))
              else return False) (\<lambda>with_record.
        bind (if with_record then
                bind (lift (getitem address ''labels'')) (\<lambda>labels.
                bind (lift (getitem labels ''domain'')) (\<lambda>label.
                bind (lift (as_str label)) (\<lambda>dashed.
                bind (say (Pprint [Lit ''Deleting DNS '', Lit name, Lit ''.'',
                                   Lit (str_replace dashed ''-'' ''.'')])) (\<lambda>_.
                bind (delete_dns B self name (str_replace dashed ''-'' ''.'')) (\<lambda>_. return ())))))
              else return ()) (\<lambda>_.
        bind (say (Pprint [Lit ''Deleting address '', Lit name])) (\<lambda>_.
        bind (execute B (AddressesDelete name)) (\<lambda>operation.
          wait_for_operation B operation)))))))
       (\<lambda>e. if debug self then say (Print [Exc e]) else return ())"

definition delete_instance_groups :: "'s backend \<Rightarrow> string \<Rightarrow> ('s, unit) exec" where
  "delete_instance_groups B name =
     bind (execute B InstanceGroupsList) (\<lambda>listing.
     bind (lift (get_default listing ''items'' (JList []))) (\<lambda>items.
     bind (lift (as_list items)) (\<lambda>xs.
       for_each xs (\<lambda>item.
         bind (lift (getitem item ''name'')) (\<lambda>item_name.
           if item_name = JStr name then
             bind (say (Pprint [Lit ''Deleting instance group '', Lit name])) (\<lambda>_.
               try_except
                 (bind (execute B (InstanceGroupsDelete name)) (\<lambda>operation.
                    wait_for_operation B operation))
                 (\<lambda>e. say (Warning [Lit ''Hit '', Exc e, Lit '' when deleting instance group '', Lit name])))
           else return ())))))"

text \<open>
  \<open>delete_loadbalancer\<close>: the steps in the order of the source. \<open>dnsclient\<close> is never
  assigned, so the method ends with the tagged success.
\<close>

definition delete_loadbalancer :: "'s backend \<Rightarrow> kgcp \<Rightarrow> string \<Rightarrow> ('s, result) exec" where
  "delete_loadbalancer B self name0 =
     (let name = str_replace name0 ''.'' ''-'' in
      bind (delete_listed B FirewallsList FirewallsDelete ''Deleting firewall rule '' name) (\<lambda>_.
      bind (delete_forwarding_rules B name) (\<lambda>_.
      bind (delete_address B self name) (\<lambda>_.
      bind (delete_listed B RegionBackendServicesList RegionBackendServicesDelete
              ''Deleting backend service '' name) (\<lambda>_.
      bind (delete_listed B RegionHealthChecksList RegionHealthChecksDelete ''Deleting healthcheck '' name) (\<lambda>_.
      bind (delete_listed B HealthChecksList HealthChecksDelete ''Deleting healthcheck '' name) (\<lambda>_.
      bind (delete_instance_groups B name) (\<lambda>_.
        return Success))))))))"

section \<open>Buckets and alias ranges\<close>

definition list_buckets :: "'s backend \<Rightarrow> ('s, json list) exec" where
  "list_buckets B =
     bind (execute B StorageListBuckets) (\<lambda>listed.
     bind (lift (as_list listed)) (\<lambda>buckets.
       return (map (\<lambda>b. attr b ''name'') buckets)))"

text \<open>\<open>create_bucket\<close> has no \<open>return\<close> with a value: where it returns, it returns \<open>None\<close>.\<close>

definition create_bucket :: "'s backend \<Rightarrow> kgcp \<Rightarrow> string \<Rightarrow> bool \<Rightarrow> ('s, result option) exec" where
  "create_bucket B self bucket make_public =
     bind (list_buckets B) (\<lambda>names.
       if JStr bucket \<in> set names then
         bind (say (Error [Lit ''Bucket '', Lit bucket, Lit '' already there''])) (\<lambda>_. return None)
       else
         bind (execute B (StorageCreateBucket bucket)) (\<lambda>_.
           if make_public then
             bind (execute B (StorageGetBucket bucket)) (\<lambda>_.
             bind (execute B (StorageAclGrantReadSave bucket)) (\<lambda>_. return None))
           else return None))"

definition get_subnet :: "'s backend \<Rightarrow> kgcp \<Rightarrow> string \<Rightarrow> ('s, json) exec" where
  "get_subnet B self subnetwork =
     bind (execute B (SubnetworksGet
             (case xproject self of None \<Rightarrow> JList [JStr (project self)] | Some x \<Rightarrow> JStr x)
             subnetwork)) (\<lambda>response.
       return (if truthy response then response else JObj []))"

definition update_aliases :: "'s backend \<Rightarrow> kgcp \<Rightarrow> string \<Rightarrow> json \<Rightarrow> ('s, result option) exec" where
  "update_aliases B self name cidr =
     bind (lookup_vm B name) (\<lambda>found.
       case found of
         None \<Rightarrow> return (Some (Failure [Lit ''VM '', Lit name, Lit '' not found'']))
       | Some vm \<Rightarrow>
           bind (lift (getitem vm ''networkInterfaces'')) (\<lambda>nics.
           bind (lift (getindex nics 0)) (\<lambda>nic.
           bind (lift (getitem nic ''fingerprint'')) (\<lambda>fingerprint.
           bind (lift (getitem nic ''subnetwork'')) (\<lambda>vm_subnetwork.
           bind (lift (as_str vm_subnetwork)) (\<lambda>path.
           bind (get_subnet B self (last (split_on CHR ''/'' path))) (\<lambda>subnet.
           bind (lift (getitem subnet ''secondaryIpRanges'')) (\<lambda>ranges.
           bind (lift (getindex ranges 0)) (\<lambda>range.
           bind (lift (getitem range ''rangeName'')) (\<lambda>cidr_name.
           bind (execute B (InstancesUpdateNetworkInterface name ''nic0''
                   (JObj [(''aliasIpRanges'',
                           JList [JObj [(''ipCidrRange'', cidr), (''subnetworkRangeName'', cidr_name)]]),
                          (''fingerprint'', fingerprint)]))) (\<lambda>operation.
           bind (wait_for_operation B operation) (\<lambda>_.
             return (Some Success)))))))))))))"

section \<open>Backends used as concrete inputs\<close>

text \<open>A backend without state whose every answer is an operation still running.\<close>

definition always_running :: "unit backend" where
  "always_running = (\<lambda>s c. (Inr (JObj [(''status'', JStr ''RUNNING'')]), s))"

definition zonal_operation :: json where
  "zonal_operation =
     JObj [(''selfLink'', JStr ''https://www.googleapis.com/compute/v1/projects/p/zones/z/operations/op-1''),
           (''name'', JStr ''op-1'')]"

definition world0 :: "'s \<Rightarrow> 's world" where
  "world0 s = \<lparr>remote = s, trace = [], clock = 0, console = []\<rparr>"

definition self0 :: kgcp where
  "self0 = \<lparr>project = ''p'', zone = ''europe-west1-b'', region = ''europe-west1'',
            debug = False, public = True, xproject = None\<rparr>"

text \<open>A backend that is unavailable: every request raises, and not with a not-found.\<close>

definition unavailable :: "unit backend" where
  "unavailable = (\<lambda>s c. (Inl (BackendError ''503 Service Unavailable''), s))"

definition done_operation :: json where
  "done_operation =
     JObj [(''selfLink'', JStr ''https://www.googleapis.com/compute/v1/projects/p/zones/z/operations/op-2''),
           (''name'', JStr ''op-2''), (''status'', JStr ''DONE''),
           (''targetLink'', JStr ''https://www.googleapis.com/compute/v1/projects/p/global/networks/net1'')]"

text \<open>
  A backend holding one instance with the given status and the custom shape of 2 cpus and
  4096 MB; every other request is answered by a finished operation.
\<close>

definition vm_custom_2_4096 :: "string \<Rightarrow> json" where
  "vm_custom_2_4096 status =
     JObj [(''name'', JStr ''vm1''), (''status'', JStr status),
           (''machineType'',
            JStr ''https://www.googleapis.com/compute/v1/projects/p/zones/europe-west1-b/machineTypes/custom-2-4096'')]"

definition one_vm :: "string \<Rightarrow> unit backend" where
  "one_vm status = (\<lambda>s c. case c of
       InstancesGet n \<Rightarrow> (if n = ''vm1'' then Inr (vm_custom_2_4096 status)
                          else Inl (BackendError ''404 Not Found''), s)
     | _ \<Rightarrow> (Inr done_operation, s))"

text \<open>
  A backend with the DNS zone of \<open>example.com\<close> and instances whose first interface has the
  internal address 10.0.0.5; it accepts every other request.
\<close>

definition example_zone :: json where
  "example_zone = JObj [(''name'', JStr ''example-com''), (''dns_name'', JStr ''example.com.'')]"

definition dns_backend :: "unit backend" where
  "dns_backend = (\<lambda>s c. case c of
       DnsListZones \<Rightarrow> (Inr (JList [example_zone]), s)
     | InstancesGet n \<Rightarrow>
         (Inr (JObj [(''name'', JStr n),
                     (''networkInterfaces'', JList [JObj [(''networkIP'', JStr ''10.0.0.5'')]])]), s)
     | _ \<Rightarrow> (Inr JNull, s))"

text \<open>An object store without buckets that accepts every request.\<close>

definition no_buckets :: "unit backend" where
  "no_buckets = (\<lambda>s c. case c of
       StorageListBuckets \<Rightarrow> (Inr (JList []), s)
     | _ \<Rightarrow> (Inr JNull, s))"

section \<open>A resource store as backend\<close>

text \<open>
  A backend that keeps resources by kind and name, the addresses with their labels, and
  one DNS zone with its record sets. A listing shows what is stored (without the key
  \<open>items\<close> when there is nothing); a deletion removes a stored resource and answers with
  a finished operation, and raises a not-found on an absent one; the store creates
  nothing. A request in \<open>refused\<close> is answered by a fault and changes nothing, as for a
  resource still in use or a service that is down.
\<close>

datatype kind = Firewall | ForwardingRule | BackendService | RegionHealthCheck | HealthCheck | InstanceGroup

record store =
  held :: "kind \<Rightarrow> string list"
  held_addresses :: "(string \<times> json) list"
  held_zones :: "json list"
  held_records :: "json list"
  refused :: "call list"

definition listing :: "string list \<Rightarrow> json" where
  "listing names =
     (if names = [] then JObj []
      else JObj [(''items'', JList (map (\<lambda>n. JObj [(''name'', JStr n)]) names))])"

fun kind_listed :: "call \<Rightarrow> kind option" where
  "kind_listed FirewallsList = Some Firewall"
| "kind_listed ForwardingRulesList = Some ForwardingRule"
| "kind_listed RegionBackendServicesList = Some BackendService"
| "kind_listed RegionHealthChecksList = Some RegionHealthCheck"
| "kind_listed HealthChecksList = Some HealthCheck"
| "kind_listed InstanceGroupsList = Some InstanceGroup"
| "kind_listed _ = None"

fun kind_deleted :: "call \<Rightarrow> (kind \<times> string) option" where
  "kind_deleted (FirewallsDelete n) = Some (Firewall, n)"
| "kind_deleted (ForwardingRulesDelete n) = Some (ForwardingRule, n)"
| "kind_deleted (RegionBackendServicesDelete n) = Some (BackendService, n)"
| "kind_deleted (RegionHealthChecksDelete n) = Some (RegionHealthCheck, n)"
| "kind_deleted (HealthChecksDelete n) = Some (HealthCheck, n)"
| "kind_deleted (InstanceGroupsDelete n) = Some (InstanceGroup, n)"
| "kind_deleted _ = None"

definition store_other :: "store \<Rightarrow> call \<Rightarrow> (fault + json) \<times> store" where
  "store_other s c =
     (case c of
        ZoneOperationsGet _ \<Rightarrow> (Inr done_operation, s)
      | RegionOperationsGet _ \<Rightarrow> (Inr done_operation, s)
      | GlobalOperationsGet _ \<Rightarrow> (Inr done_operation, s)
      | AddressesGet n \<Rightarrow>
          (case map_of (held_addresses s) n of
             None \<Rightarrow> (Inl (BackendError ''404 Not Found''), s)
           | Some a \<Rightarrow> (Inr a, s))
      | AddressesDelete n \<Rightarrow>
          (case map_of (held_addresses s) n of
             None \<Rightarrow> (Inl (BackendError ''404 Not Found''), s)
           | Some a \<Rightarrow> (Inr done_operation, s\<lparr>held_addresses := filter (\<lambda>kv. fst kv \<noteq> n) (held_addresses s)\<rparr>))
      | DnsListZones \<Rightarrow> (Inr (JList (held_zones s)), s)
      | DnsListRecordSets z \<Rightarrow> (Inr (JList (held_records s)), s)
      | DnsChangesCreate z additions deletions \<Rightarrow>
          (Inr JNull, s\<lparr>held_records := filter (\<lambda>r. r \<notin> set deletions) (held_records s) @ additions\<rparr>)
      | _ \<Rightarrow> (Inl (BackendError ''400 Not Supported''), s))"

definition store_backend :: "store backend" where
  "store_backend s c =
     (if c \<in> set (refused s) then (Inl (BackendError ''403 Refused''), s)
      else case kind_listed c of
        Some k \<Rightarrow> (Inr (listing (held s k)), s)
      | None \<Rightarrow>
          (case kind_deleted c of
             Some (k, n) \<Rightarrow>
               if n \<in> set (held s k)
               then (Inr done_operation, s\<lparr>held := (held s)(k := removeAll n (held s k))\<rparr>)
               else (Inl (BackendError ''404 Not Found''), s)
           | None \<Rightarrow> store_other s c))"

text \<open>
  What a teardown needs of the store to go through without a fault: the six listings
  are answered, and nothing of the four kinds whose deletion is not guarded is left under
  the name (for the forwarding rules: under the name or the name followed by a hyphen).
\<close>

definition torn_down :: "string \<Rightarrow> store \<Rightarrow> bool" where
  "torn_down name s =
     (name \<notin> set (held s Firewall)
      \<and> filter (\<lambda>n. n = name \<or> startswith n (name @ ''-'')) (held s ForwardingRule) = []
      \<and> name \<notin> set (held s BackendService)
      \<and> name \<notin> set (held s RegionHealthCheck)
      \<and> name \<notin> set (held s HealthCheck)
      \<and> FirewallsList \<notin> set (refused s)
      \<and> ForwardingRulesList \<notin> set (refused s)
      \<and> RegionBackendServicesList \<notin> set (refused s)
      \<and> RegionHealthChecksList \<notin> set (refused s)
      \<and> HealthChecksList \<notin> set (refused s)
      \<and> InstanceGroupsList \<notin> set (refused s))"

text \<open>One store comes after another when it has no more resources and refuses the same.\<close>

definition shrinks :: "store \<Rightarrow> store \<Rightarrow> bool" where
  "shrinks s s' = ((\<forall>k. set (held s' k) \<subseteq> set (held s k)) \<and> refused s' = refused s)"

definition shrinking :: "(store, 'a) exec \<Rightarrow> bool" where
  "shrinking m = (\<forall>w. shrinks (remote w) (remote (snd (m w))))"

text \<open>
  A store holding a load balancer \<open>lb\<close>: its firewall rule, two forwarding rules beside a
  foreign one, backend service, regional health check and instance group, and its address
  labelled with the domain \<open>example.com\<close>, whose zone has the record of the balancer. The
  instance group is still in use: its deletion is refused.
\<close>

definition lb_store :: store where
  "lb_store =
     \<lparr>held = (\<lambda>k. case k of
                 Firewall \<Rightarrow> [''lb'']
               | ForwardingRule \<Rightarrow> [''lb'', ''lb-2'', ''other'']
               | BackendService \<Rightarrow> [''lb'']
               | RegionHealthCheck \<Rightarrow> [''lb'']
               | HealthCheck \<Rightarrow> []
               | InstanceGroup \<Rightarrow> [''lb'']),
      held_addresses = [(''lb'', JObj [(''name'', JStr ''lb''), (''address'', JStr ''1.2.3.4''),
                                       (''labels'', JObj [(''domain'', JStr ''example-com'')])])],
      held_zones = [example_zone],
      held_records = [record_set (JStr ''lb.example.com.'') (JStr ''A'') (JInt 300) (JList [JStr ''1.2.3.4''])],
      refused = [InstanceGroupsDelete ''lb'']\<rparr>"

text \<open>
  The same store behind a listing that lags: a listing shows the second store, a snapshot
  taken earlier, while every other request is served by the first, which is what is held
  now. A resource whose deletion has been accepted and has finished is still listed.
\<close>

definition lagging_backend :: "(store \<times> store) backend" where
  "lagging_backend s c =
     (case kind_listed c of
        Some k \<Rightarrow> (Inr (listing (held (snd s) k)), s)
      | None \<Rightarrow> (fst (store_backend (fst s) c), (snd (store_backend (fst s) c), snd s)))"

section \<open>The shape rule in the specification's words\<close>

definition shape_accepted :: "int \<Rightarrow> int \<Rightarrow> bool" where
  "shape_accepted numcpus memory =
     ((numcpus = 1 \<or> even numcpus) \<and> (memory = 512 \<or> memory mod 1024 = 0))"

definition floored_memory :: "int \<Rightarrow> int \<Rightarrow> int" where
  "floored_memory numcpus memory = (if numcpus > 1 \<and> memory < 2048 then 2048 else memory)"

definition shape_name :: "int \<Rightarrow> int \<Rightarrow> string" where
  "shape_name numcpus memory =
     (if floored_memory numcpus memory \<le> 921 then ''f1-micro''
      else ''custom-'' @ str_int numcpus @ ''-'' @ str_int (floored_memory numcpus memory))"

definition shape_notes :: "int \<Rightarrow> int \<Rightarrow> logline list" where
  "shape_notes numcpus memory =
     (if numcpus > 1 \<and> memory < 2048
      then [Pprint [Lit ''Rounding memory to 2048Mb as more than one cpu is used'']] else [])
     @ (if floored_memory numcpus memory \<le> 921 then [Pprint [Lit ''Rounding memory to 1024Mb'']] else [])"

definition shape_refusal :: "int \<Rightarrow> int \<Rightarrow> result" where
  "shape_refusal numcpus memory =
     (if numcpus = 1 \<or> even numcpus then Failure [Lit ''Memory is not multiple of 1024'']
      else Failure [Lit ''Number of cpus is not even''])"

section \<open>The cluster-prefix rule in the specification's words\<close>

definition before_first_hyphen :: "string \<Rightarrow> string" where
  "before_first_hyphen s = takeWhile (\<lambda>c. c \<noteq> CHR ''-'') s"

definition first_label :: "string \<Rightarrow> string" where
  "first_label s = takeWhile (\<lambda>c. c \<noteq> CHR ''.'') s"

definition second_label :: "string \<Rightarrow> string" where
  "second_label s = takeWhile (\<lambda>c. c \<noteq> CHR ''.'') (drop 1 (dropWhile (\<lambda>c. c \<noteq> CHR ''.'') s))"

section \<open>What a program sends\<close>

text \<open>
  \<open>sends P m\<close>: from every world, \<open>m\<close> only adds requests to the trace, and every request
  it adds satisfies \<open>P\<close>. \<open>is_change\<close> picks the submissions of a DNS change-set.
\<close>

definition sends :: "(call \<Rightarrow> bool) \<Rightarrow> ('s, 'a) exec \<Rightarrow> bool" where
  "sends P m = (\<forall>w. \<exists>cs. trace (snd (m w)) = trace w @ cs \<and> filter (\<lambda>c. \<not> P c) cs = [])"

fun is_change :: "call \<Rightarrow> bool" where
  "is_change (DnsChangesCreate _ _ _) = True"
| "is_change _ = False"

section \<open>Running programs\<close>

declare wait_loop.simps [simp del]
declare replace_nonempty.simps [simp del]
declare str_nat.simps [simp del]
declare internalip_loop.simps [simp del]
declare ip_loop.simps [simp del]
declare gone_loop.simps [simp del]

lemma bind_apply:
  "bind m f w = (case m w of (Inl e, w') \<Rightarrow> (Inl e, w') | (Inr x, w') \<Rightarrow> f x w')"
  by (simp add: bind_def)

lemma bind_return [simp]: "bind (return x) f = f x"
  by (simp add: bind_def return_def)

lemma bind_raise [simp]: "bind (raise e) f = raise e"
  by (simp add: bind_def raise_def)

lemma bind_lift_Inr [simp]: "bind (lift (Inr x)) f = f x"
  by (simp add: bind_def lift_def)

lemma bind_lift_Inl [simp]: "bind (lift (Inl e)) f = raise e"
  by (simp add: bind_def lift_def raise_def)

lemma return_apply [simp]: "return x w = (Inr x, w)"
  by (simp add: return_def)

lemma raise_apply [simp]: "raise e w = (Inl e, w)"
  by (simp add: raise_def)

lemma lift_apply [simp]: "lift r w = (r, w)"
  by (simp add: lift_def)

lemma sleep_apply [simp]: "sleep n w = (Inr (), w\<lparr>clock := clock w + n\<rparr>)"
  by (simp add: sleep_def)

lemma say_apply [simp]: "say l w = (Inr (), w\<lparr>console := console w @ [l]\<rparr>)"
  by (simp add: say_def)

lemma execute_apply:
  "execute B c w = (case B (remote w) c of
                      (r, s') \<Rightarrow> (r, w\<lparr>remote := s', trace := trace w @ [c]\<rparr>))"
  by (simp add: execute_def)

section \<open>The operation waiter: properties\<close>

lemma str_contains_zone_link:
  "str_contains ''zone'' ''https://www.googleapis.com/compute/v1/projects/p/zones/z/operations/op-1''"
  by (simp add: startswith_def)

lemma poll_always_running:
  "poll_operation always_running
     (JStr ''https://www.googleapis.com/compute/v1/projects/p/zones/z/operations/op-1'') (JStr ''op-1'') w
   = (Inr (JObj [(''status'', JStr ''RUNNING'')]), w\<lparr>trace := trace w @ [ZoneOperationsGet (JStr ''op-1'')]\<rparr>)"
  unfolding poll_operation_def
  by (simp only: py_in.simps str_contains_zone_link bind_lift_Inr if_True)
     (simp add: execute_apply always_running_def)

lemma report_error_running [simp]:
  "report_error (JObj [(''status'', JStr ''RUNNING'')]) w = (Inr (), w)"
  by (simp add: report_error_def)

text \<open>
  Against a backend that never reports \<open>DONE\<close>, the loop entered with counter \<open>t\<close> polls
  and sleeps once for every counter value from \<open>t\<close> up to 60.
\<close>

lemma wait_loop_always_running:
  "t \<le> 61 \<Longrightarrow>
   wait_loop always_running
     (JStr ''https://www.googleapis.com/compute/v1/projects/p/zones/z/operations/op-1'') (JStr ''op-1'') t w
   = (Inr (), w\<lparr>trace := trace w @ replicate (61 - t) (ZoneOperationsGet (JStr ''op-1'')),
                    clock := clock w + (61 - t)\<rparr>)"
proof (induction "61 - t" arbitrary: t w)
  case 0
  then have "t = 61" by simp
  then show ?case by (simp add: wait_loop.simps)
next
  case (Suc n)
  then have le: "t \<le> 60" and n: "n = 61 - Suc t" by simp_all
  have ih: "wait_loop always_running
     (JStr ''https://www.googleapis.com/compute/v1/projects/p/zones/z/operations/op-1'') (JStr ''op-1'') (Suc t) w'
   = (Inr (), w'\<lparr>trace := trace w' @ replicate (60 - t) (ZoneOperationsGet (JStr ''op-1'')),
                    clock := clock w' + (60 - t)\<rparr>)" for w'
    using Suc.hyps(1)[OF n] le by simp
  have step: "61 - t = Suc (60 - t)" using le by simp
  show ?case
    using le
    by (subst wait_loop.simps) (simp add: bind_apply poll_always_running ih step)
qed

text \<open>
  What holds of the waiter against every backend: past the counter 60 it returns at once,
  with nothing sent, slept or printed; and a poll answered with the status \<open>DONE\<close> ends it
  on the spot, after the report of an error payload if there is one, without a sleep.
\<close>

lemma wait_loop_gives_up:
  "timeout > 60 \<Longrightarrow> wait_loop B selflink operation timeout w = (Inr (), w)"
  by (simp add: wait_loop.simps)

lemma wait_loop_done:
  assumes "timeout \<le> 60"
    and "poll_operation B selflink operation w = (Inr check, w1)"
    and "getitem check ''status'' = Inr (JStr ''DONE'')"
  shows "wait_loop B selflink operation timeout w = report_error check w1"
  using assms by (subst wait_loop.simps) (simp add: bind_apply)

text \<open>
  C1. The waiter is said to return within a budget of 60 time units, polling once per
  unit. Run against a backend that keeps answering \<open>RUNNING\<close>, it returns without a
  fault and without a line on the console, but only after 61 polls and 61 units of sleep:
  the loop gives up when the counter is greater than 60, not when it reaches 60.
\<close>

theorem wait_for_operation_sleeps_61:
  "wait_for_operation always_running zonal_operation (world0 ())
   = (Inr (), \<lparr>remote = (), trace = replicate 61 (ZoneOperationsGet (JStr ''op-1'')),
                 clock = 61, console = []\<rparr>)"
  unfolding wait_for_operation_def zonal_operation_def
  by (simp add: wait_loop_always_running world0_def)

section \<open>Existence probe and creation: properties\<close>

lemma exists_found:
  assumes "B (remote w) (InstancesGet name) = (Inr vm, s')"
  shows "exists B name w = (Inr True, w\<lparr>remote := s', trace := trace w @ [InstancesGet name]\<rparr>)"
  using assms by (simp add: exists_def try_except_def bind_apply execute_apply)

lemma exists_fault:
  assumes "B (remote w) (InstancesGet name) = (Inl e, s')"
  shows "exists B name w = (Inr False, w\<lparr>remote := s', trace := trace w @ [InstancesGet name]\<rparr>)"
  using assms by (simp add: exists_def try_except_def bind_apply execute_apply)

lemma no_mutation_one_read:
  "\<not> mutating c \<Longrightarrow> no_mutation w (w\<lparr>remote := s', trace := trace w @ [c]\<rparr>)"
  by (simp add: no_mutation_def calls_made_def)

lemma machine_type_for_custom:
  "machine_type_for self None numcpus memory w =
     (if shape_accepted numcpus memory
      then (Inr (Inr (''zones/'' @ zone self @ ''/machineTypes/'' @ shape_name numcpus memory)),
            w\<lparr>console := console w @ shape_notes numcpus memory\<rparr>)
      else (Inr (Inl (shape_refusal numcpus memory)), w))"
proof (cases "shape_accepted numcpus memory")
  case False
  then show ?thesis
    by (auto simp: machine_type_for_def shape_accepted_def shape_refusal_def even_iff_mod_2_eq_zero)
next
  case True
  then have ok: "\<not> (numcpus \<noteq> 1 \<and> numcpus mod 2 \<noteq> 0)" "\<not> (memory \<noteq> 512 \<and> memory mod 1024 \<noteq> 0)"
    by (auto simp: shape_accepted_def even_iff_mod_2_eq_zero)
  have small: "m * 10 < 9216 \<longleftrightarrow> m \<le> 921" for m :: int
    by arith
  show ?thesis
    unfolding machine_type_for_def
    using True ok
    by (simp add: bind_apply small shape_name_def shape_notes_def floored_memory_def)
qed

text \<open>
  C3. When the probe finds the name, \<open>create\<close> returns the failure that reports the
  collision, and the probe's lookup is the only request it has sent: no mutating request.
\<close>

theorem create_existing_name_fails:
  assumes "B (remote w) (InstancesGet name) = (Inr vm, s')"
  shows "create B self name flavor numcpus memory rest w
           = (Inr (Failure [Lit ''VM '', Lit name, Lit '' already exists'']),
              w\<lparr>remote := s', trace := trace w @ [InstancesGet name]\<rparr>)
         \<and> calls_made w (w\<lparr>remote := s', trace := trace w @ [InstancesGet name]\<rparr>) = [InstancesGet name]
         \<and> no_mutation w (w\<lparr>remote := s', trace := trace w @ [InstancesGet name]\<rparr>)"
proof -
  have "create B self name flavor numcpus memory rest w
           = (Inr (Failure [Lit ''VM '', Lit name, Lit '' already exists'']),
              w\<lparr>remote := s', trace := trace w @ [InstancesGet name]\<rparr>)"
    by (simp add: create_def bind_apply exists_found[where B=B and w=w, OF assms])
  moreover have "calls_made w (w\<lparr>remote := s', trace := trace w @ [InstancesGet name]\<rparr>) = [InstancesGet name]"
    by (simp add: calls_made_def)
  moreover have "no_mutation w (w\<lparr>remote := s', trace := trace w @ [InstancesGet name]\<rparr>)"
    by (rule no_mutation_one_read) simp
  ultimately show ?thesis by simp
qed

theorem create_existing_name_fails_witness:
  "create (one_vm ''RUNNING'') self0 ''vm1'' None 2 4096 (\<lambda>mt. return Success) (world0 ())
     = (Inr (Failure [Lit ''VM '', Lit ''vm1'', Lit '' already exists'']),
        \<lparr>remote = (), trace = [InstancesGet ''vm1''], clock = 0, console = []\<rparr>)
   \<and> no_mutation (world0 ()) \<lparr>remote = (), trace = [InstancesGet ''vm1''], clock = 0, console = []\<rparr>"
proof -
  have probe: "one_vm ''RUNNING'' (remote (world0 ())) (InstancesGet ''vm1'')
                 = (Inr (vm_custom_2_4096 ''RUNNING''), ())"
    by (simp add: one_vm_def)
  show ?thesis
    using create_existing_name_fails[where B="one_vm ''RUNNING''" and w="world0 ()" and self=self0
            and flavor=None and numcpus=2 and memory=4096 and rest="\<lambda>mt. return Success", OF probe]
    by (simp add: world0_def)
qed

text \<open>
  C10. Whatever fault the lookup raises, the probe answers \<open>False\<close> and the fault is gone;
  \<open>create\<close> then does not report a collision but goes on with the shape and the rest of
  the creation, exactly as for a name that does not exist.
\<close>

theorem probe_fault_means_absent:
  assumes "B (remote w) (InstancesGet name) = (Inl e, s')"
  shows "exists B name w = (Inr False, w\<lparr>remote := s', trace := trace w @ [InstancesGet name]\<rparr>)
         \<and> create B self name flavor numcpus memory rest w
             = bind (machine_type_for self flavor numcpus memory)
                 (\<lambda>shape. case shape of Inl failure \<Rightarrow> return failure | Inr machine_type \<Rightarrow> rest machine_type)
                 (w\<lparr>remote := s', trace := trace w @ [InstancesGet name]\<rparr>)
         \<and> create B self name (Some f) numcpus memory rest w
             = rest (''zones/'' @ zone self @ ''/machineTypes/'' @ f)
                 (w\<lparr>remote := s', trace := trace w @ [InstancesGet name]\<rparr>)"
proof -
  note probe = exists_fault[where B=B and w=w, OF assms]
  have general: "create B self name fl numcpus memory rest w
             = bind (machine_type_for self fl numcpus memory)
                 (\<lambda>shape. case shape of Inl failure \<Rightarrow> return failure | Inr machine_type \<Rightarrow> rest machine_type)
                 (w\<lparr>remote := s', trace := trace w @ [InstancesGet name]\<rparr>)" for fl
    by (simp add: create_def bind_apply[of "exists B name"] probe)
  have "create B self name (Some f) numcpus memory rest w
             = rest (''zones/'' @ zone self @ ''/machineTypes/'' @ f)
                 (w\<lparr>remote := s', trace := trace w @ [InstancesGet name]\<rparr>)"
    by (simp add: general machine_type_for_def)
  with probe general show ?thesis by simp
qed

theorem probe_fault_means_absent_witness:
  "exists unavailable ''vm1'' (world0 ())
     = (Inr False, \<lparr>remote = (), trace = [InstancesGet ''vm1''], clock = 0, console = []\<rparr>)
   \<and> create unavailable self0 ''vm1'' (Some ''n1-standard-1'') 2 4096
         (\<lambda>mt. bind (say (Print [Lit mt])) (\<lambda>_. return Success)) (world0 ())
     = (Inr Success, \<lparr>remote = (), trace = [InstancesGet ''vm1''], clock = 0,
                       console = [Print [Lit ''zones/europe-west1-b/machineTypes/n1-standard-1'']]\<rparr>)"
proof -
  have probe: "unavailable (remote (world0 ())) (InstancesGet ''vm1'')
                 = (Inl (BackendError ''503 Service Unavailable''), ())"
    by (simp add: unavailable_def)
  show ?thesis
    using probe_fault_means_absent[where B=unavailable and w="world0 ()" and self=self0
            and flavor=None and numcpus=2 and memory=4096 and f="''n1-standard-1''"
            and rest="\<lambda>mt. bind (say (Print [Lit mt])) (\<lambda>_. return Success)", OF probe]
    by (simp add: world0_def self0_def bind_apply)
qed

text \<open>
  C2, as the code has it. With no flavor and a name the probe does not find, \<open>create\<close>
  refuses a cpu count that is neither 1 nor even and a memory that is neither 512 nor a
  multiple of 1024, having sent nothing but the probe's lookup. Every other combination
  goes on with the machine type \<open>custom-<numcpus>-<memory>\<close>, the memory raised to 2048
  (with a note) when more than one cpu is asked for; a memory that is still at most 921
  is named \<open>f1-micro\<close> instead (with a note).
\<close>

theorem create_custom_shape:
  assumes "B (remote w) (InstancesGet name) = (Inl e, s')"
  shows "create B self name None numcpus memory rest w =
           (if shape_accepted numcpus memory
            then rest (''zones/'' @ zone self @ ''/machineTypes/'' @ shape_name numcpus memory)
                   (w\<lparr>remote := s', trace := trace w @ [InstancesGet name],
                      console := console w @ shape_notes numcpus memory\<rparr>)
            else (Inr (shape_refusal numcpus memory),
                  w\<lparr>remote := s', trace := trace w @ [InstancesGet name]\<rparr>))
         \<and> no_mutation w (w\<lparr>remote := s', trace := trace w @ [InstancesGet name]\<rparr>)"
proof -
  have "create B self name None numcpus memory rest w
          = bind (machine_type_for self None numcpus memory)
              (\<lambda>shape. case shape of Inl failure \<Rightarrow> return failure | Inr machine_type \<Rightarrow> rest machine_type)
              (w\<lparr>remote := s', trace := trace w @ [InstancesGet name]\<rparr>)"
    by (simp add: create_def bind_apply[of "exists B name"] exists_fault[where B=B and w=w, OF assms])
  then have "create B self name None numcpus memory rest w =
           (if shape_accepted numcpus memory
            then rest (''zones/'' @ zone self @ ''/machineTypes/'' @ shape_name numcpus memory)
                   (w\<lparr>remote := s', trace := trace w @ [InstancesGet name],
                      console := console w @ shape_notes numcpus memory\<rparr>)
            else (Inr (shape_refusal numcpus memory),
                  w\<lparr>remote := s', trace := trace w @ [InstancesGet name]\<rparr>))"
    by (simp add: bind_apply machine_type_for_custom)
  moreover have "no_mutation w (w\<lparr>remote := s', trace := trace w @ [InstancesGet name]\<rparr>)"
    by (rule no_mutation_one_read) simp
  ultimately show ?thesis by simp
qed

lemma str_int_2: "str_int 2 = ''2''"
  by (simp add: str_int_def str_nat.simps digit_char_def)

lemma str_int_2048: "str_int 2048 = ''2048''"
  by (simp add: str_int_def str_nat.simps digit_char_def)

theorem create_custom_shape_witness:
  "create unavailable self0 ''vm1'' None 2 1024
       (\<lambda>mt. bind (say (Print [Lit mt])) (\<lambda>_. return Success)) (world0 ())
     = (Inr Success, \<lparr>remote = (), trace = [InstancesGet ''vm1''], clock = 0,
          console = [Pprint [Lit ''Rounding memory to 2048Mb as more than one cpu is used''],
                     Print [Lit ''zones/europe-west1-b/machineTypes/custom-2-2048'']]\<rparr>)
   \<and> create unavailable self0 ''vm1'' None 3 1024
       (\<lambda>mt. bind (say (Print [Lit mt])) (\<lambda>_. return Success)) (world0 ())
     = (Inr (Failure [Lit ''Number of cpus is not even'']),
        \<lparr>remote = (), trace = [InstancesGet ''vm1''], clock = 0, console = []\<rparr>)"
proof -
  have probe: "unavailable (remote (world0 ())) (InstancesGet ''vm1'')
                 = (Inl (BackendError ''503 Service Unavailable''), ())"
    by (simp add: unavailable_def)
  have accepted: "shape_accepted 2 1024" "\<not> shape_accepted 3 1024"
    by (simp_all add: shape_accepted_def)
  have name: "shape_name 2 1024 = ''custom-2-2048''"
    by (simp add: shape_name_def floored_memory_def str_int_2 str_int_2048)
  show ?thesis
    using create_custom_shape[where B=unavailable and w="world0 ()" and self=self0 and numcpus=2
            and memory=1024 and rest="\<lambda>mt. bind (say (Print [Lit mt])) (\<lambda>_. return Success)", OF probe]
          create_custom_shape[where B=unavailable and w="world0 ()" and self=self0 and numcpus=3
            and memory=1024 and rest="\<lambda>mt. bind (say (Print [Lit mt])) (\<lambda>_. return Success)", OF probe]
    by (simp add: accepted name shape_notes_def floored_memory_def shape_refusal_def
                  world0_def self0_def bind_apply)
qed

text \<open>
  The claim as stated fails for one cpu and 512 MB: the combination is accepted, and the
  machine type is \<open>f1-micro\<close>, not \<open>custom-1-512\<close>.
\<close>

theorem custom_1_512_counterexample:
  "machine_type_for self0 None 1 512 (world0 ())
     = (Inr (Inr ''zones/europe-west1-b/machineTypes/f1-micro''),
        \<lparr>remote = (), trace = [], clock = 0, console = [Pprint [Lit ''Rounding memory to 1024Mb'']]\<rparr>)
   \<and> ''zones/europe-west1-b/machineTypes/f1-micro'' \<noteq> ''zones/europe-west1-b/machineTypes/custom-1-512''"
  by (simp add: machine_type_for_def bind_apply world0_def self0_def)

section \<open>Resizing: properties\<close>

lemma lookup_vm_found:
  assumes "B (remote w) (InstancesGet name) = (Inr vm, s')"
  shows "lookup_vm B name w = (Inr (Some vm), w\<lparr>remote := s', trace := trace w @ [InstancesGet name]\<rparr>)"
  using assms by (simp add: lookup_vm_def try_except_def bind_apply execute_apply)

text \<open>
  An instance that is running or stopping is refused by each of the three resizes, and
  the lookup is the only request sent.
\<close>

lemma resize_refused_while_up:
  assumes "B (remote w) (InstancesGet name) = (Inr vm, s')"
    and "getitem vm ''status'' = Inr status"
    and "status = JStr ''RUNNING'' \<or> status = JStr ''STOPPING''"
  shows "fst (update_flavor B self name flavor w) = Inr (Failure [Lit ''VM '', Lit name, Lit '' up''])"
    and "trace (snd (update_flavor B self name flavor w)) = trace w @ [InstancesGet name]"
    and "fst (update_memory B self name memory w) = Inr (Failure [Lit ''VM '', Lit name, Lit '' up''])"
    and "trace (snd (update_memory B self name memory w)) = trace w @ [InstancesGet name]"
    and "fst (update_cpus B self name numcpus w) = Inr (Failure [Lit ''VM '', Lit name, Lit '' up''])"
    and "trace (snd (update_cpus B self name numcpus w)) = trace w @ [InstancesGet name]"
  using assms(2,3)
  by (auto simp: update_flavor_def update_memory_def update_cpus_def bind_apply
                 lookup_vm_found[where B=B and w=w, OF assms(1)])

text \<open>A stopped instance already of the requested flavor: success, and only the lookup.\<close>

lemma update_flavor_same_flavor:
  assumes "B (remote w) (InstancesGet name) = (Inr vm, s')"
    and "getitem vm ''status'' = Inr status"
    and "status \<noteq> JStr ''RUNNING''" and "status \<noteq> JStr ''STOPPING''"
    and "getitem vm ''machineType'' = Inr (JStr path)"
    and "basename path = flavor"
  shows "update_flavor B self name flavor w
           = (Inr Success, w\<lparr>remote := s', trace := trace w @ [InstancesGet name]\<rparr>)"
  using assms(2-)
  by (simp add: update_flavor_def bind_apply lookup_vm_found[where B=B and w=w, OF assms(1)])

text \<open>
  A stopped instance of a custom shape, the requested memory passed as the text the
  machine type holds: success, and only the lookup. The same for the cpus.
\<close>

lemma update_memory_same_text:
  assumes "B (remote w) (InstancesGet name) = (Inr vm, s')"
    and "getitem vm ''status'' = Inr status"
    and "status \<noteq> JStr ''RUNNING''" and "status \<noteq> JStr ''STOPPING''"
    and "getitem vm ''machineType'' = Inr (JStr path)"
    and "str_contains ''custom'' (basename path)"
    and "tl (split_on CHR ''-'' (basename path)) = [cpus, mem]"
  shows "update_memory B self name (PStr mem) w
           = (Inr Success, w\<lparr>remote := s', trace := trace w @ [InstancesGet name]\<rparr>)"
    and "update_cpus B self name (PStr cpus) w
           = (Inr Success, w\<lparr>remote := s', trace := trace w @ [InstancesGet name]\<rparr>)"
  using assms(2-)
  by (simp_all add: update_memory_def update_cpus_def bind_apply pyval_eq_str_def
                    lookup_vm_found[where B=B and w=w, OF assms(1)])

lemma basename_custom_2_4096:
  "basename ''https://www.googleapis.com/compute/v1/projects/p/zones/europe-west1-b/machineTypes/custom-2-4096''
     = ''custom-2-4096''"
  by (simp add: basename_def)

lemma split_custom_2_4096: "split_on CHR ''-'' ''custom-2-4096'' = [''custom'', ''2'', ''4096'']"
  by simp

lemma contains_custom: "str_contains ''custom'' ''custom-2-4096''"
  by (simp add: startswith_def)

lemma str_int_4096: "str_int 4096 = ''4096''"
  by (simp add: str_int_def str_nat.simps digit_char_def)

text \<open>
  C5. On a stopped instance of shape \<open>custom-2-4096\<close>, a resize to 4096 MB of memory, or to
  2 cpus, the number passed as a number, is not a no-op: the requested number is compared
  with the text cut out of the machine type, the two are never equal, and the machine
  type is set again to the shape the instance already has.
\<close>

theorem resize_to_same_number_mutates:
  "update_memory (one_vm ''TERMINATED'') self0 ''vm1'' (PInt 4096) (world0 ())
     = (Inr Success,
        \<lparr>remote = (),
           trace = [InstancesGet ''vm1'',
                    InstancesSetMachineType ''vm1'' (JObj [(''machineType'', JStr
                      ''https://www.googleapis.com/compute/v1/projects/p/zones/europe-west1-b/machineTypes/custom-2-4096'')])],
           clock = 0, console = []\<rparr>)
   \<and> update_cpus (one_vm ''TERMINATED'') self0 ''vm1'' (PInt 2) (world0 ())
     = (Inr Success,
        \<lparr>remote = (),
           trace = [InstancesGet ''vm1'',
                    InstancesSetMachineType ''vm1'' (JObj [(''machineType'', JStr
                      ''https://www.googleapis.com/compute/v1/projects/p/zones/europe-west1-b/machineTypes/custom-2-4096'')])],
           clock = 0, console = []\<rparr>)
   \<and> mutating (InstancesSetMachineType ''vm1'' (JObj [(''machineType'', JStr
                      ''https://www.googleapis.com/compute/v1/projects/p/zones/europe-west1-b/machineTypes/custom-2-4096'')]))"
proof -
  have probe: "one_vm ''TERMINATED'' (remote (world0 ())) (InstancesGet ''vm1'')
                 = (Inr (vm_custom_2_4096 ''TERMINATED''), ())"
    by (simp add: one_vm_def)
  have found: "lookup_vm (one_vm ''TERMINATED'') ''vm1'' \<lparr>remote = (), trace = [], clock = 0, console = []\<rparr>
                 = (Inr (Some (vm_custom_2_4096 ''TERMINATED'')),
                    \<lparr>remote = (), trace = [InstancesGet ''vm1''], clock = 0, console = []\<rparr>)"
    using lookup_vm_found[where B="one_vm ''TERMINATED''" and w="world0 ()", OF probe]
    by (simp add: world0_def)
  have fields: "getitem (vm_custom_2_4096 ''TERMINATED'') ''status'' = Inr (JStr ''TERMINATED'')"
    "getitem (vm_custom_2_4096 ''TERMINATED'') ''machineType'' = Inr (JStr
       ''https://www.googleapis.com/compute/v1/projects/p/zones/europe-west1-b/machineTypes/custom-2-4096'')"
    by (simp_all add: vm_custom_2_4096_def)
  have url: "machine_types_url self0
               = ''https://www.googleapis.com/compute/v1/projects/p/zones/europe-west1-b/machineTypes''"
    by (simp add: machine_types_url_def self0_def)
  have set_type: "one_vm ''TERMINATED'' s (InstancesSetMachineType n b) = (Inr done_operation, s)" for s n b
    by (simp add: one_vm_def)
  have memory: "update_memory (one_vm ''TERMINATED'') self0 ''vm1'' (PInt 4096) (world0 ())
     = (Inr Success,
        \<lparr>remote = (),
           trace = [InstancesGet ''vm1'',
                    InstancesSetMachineType ''vm1'' (JObj [(''machineType'', JStr
                      ''https://www.googleapis.com/compute/v1/projects/p/zones/europe-west1-b/machineTypes/custom-2-4096'')])],
           clock = 0, console = []\<rparr>)"
    unfolding update_memory_def
    by (simp add: bind_apply found fields basename_custom_2_4096 split_custom_2_4096 contains_custom
                  pyval_eq_str_def format_pyval_def str_int_4096 url execute_apply set_type world0_def
             del: split_on.simps str_contains.simps)
  have cpus: "update_cpus (one_vm ''TERMINATED'') self0 ''vm1'' (PInt 2) (world0 ())
     = (Inr Success,
        \<lparr>remote = (),
           trace = [InstancesGet ''vm1'',
                    InstancesSetMachineType ''vm1'' (JObj [(''machineType'', JStr
                      ''https://www.googleapis.com/compute/v1/projects/p/zones/europe-west1-b/machineTypes/custom-2-4096'')])],
           clock = 0, console = []\<rparr>)"
    unfolding update_cpus_def
    by (simp add: bind_apply found fields basename_custom_2_4096 split_custom_2_4096 contains_custom
                  pyval_eq_str_def format_pyval_def str_int_2 url execute_apply set_type world0_def
             del: split_on.simps str_contains.simps)
  from memory cpus show ?thesis by simp
qed

section \<open>What the waiter sends\<close>

lemma poll_operation_trace:
  "poll_operation B l op w = (r, w1) \<Longrightarrow>
     \<exists>cs. trace w1 = trace w @ cs \<and> filter mutating cs = [] \<and> length cs \<le> 1 \<and> clock w1 = clock w"
  by (auto simp: poll_operation_def bind_apply execute_apply split: sum.splits prod.splits if_splits)

lemma report_error_trace:
  "report_error c w = (r, w1) \<Longrightarrow> trace w1 = trace w \<and> clock w1 = clock w"
  by (auto simp: report_error_def bind_apply split: sum.splits prod.splits if_splits)

text \<open>
  Whatever the backend answers, the loop entered with counter \<open>t\<close> sends only polls, at most
  \<open>61 - t\<close> of them, and sleeps at most \<open>61 - t\<close> units.
\<close>

lemma wait_loop_trace:
  "wait_loop B l op t w = (r, w') \<Longrightarrow>
     \<exists>cs. trace w' = trace w @ cs \<and> filter mutating cs = [] \<and> length cs \<le> 61 - t
          \<and> clock w' \<le> clock w + (61 - t)"
proof (induction B l op t arbitrary: w r w' rule: wait_loop.induct)
  case (1 B selflink operation timeout)
  show ?case
  proof (cases "timeout > 60")
    case True
    with "1.prems" show ?thesis by (simp add: wait_loop.simps)
  next
    case False
    obtain r1 w1 where poll: "poll_operation B selflink operation w = (r1, w1)"
      by (cases "poll_operation B selflink operation w")
    from poll_operation_trace[OF poll] obtain cs1
      where cs1: "trace w1 = trace w @ cs1" "filter mutating cs1 = []" "length cs1 \<le> 1" "clock w1 = clock w"
      by blast
    show ?thesis
    proof (cases r1)
      case (Inl e)
      with "1.prems" False poll cs1 show ?thesis
        by (subst (asm) wait_loop.simps) (auto simp: bind_apply)
    next
      case (Inr check)
      show ?thesis
      proof (cases "getitem check ''status''")
        case (Inl e)
        with "1.prems" False poll cs1 Inr show ?thesis
          by (subst (asm) wait_loop.simps) (auto simp: bind_apply)
      next
        case st: (Inr status)
        show ?thesis
        proof (cases "status = JStr ''DONE''")
          case True
          with "1.prems" False poll Inr st have "report_error check w1 = (r, w')"
            by (subst (asm) wait_loop.simps) (simp add: bind_apply)
          from report_error_trace[OF this] have same: "trace w' = trace w1" "clock w' = clock w1"
            by simp_all
          have "length cs1 \<le> 61 - timeout" using cs1(3) False by arith
          moreover have "clock w' \<le> clock w + (61 - timeout)" using same cs1(4) by arith
          ultimately show ?thesis using same cs1 by auto
        next
          case notdone: False
          obtain r2 w2 where rep: "report_error check (w1\<lparr>clock := clock w1 + 1\<rparr>) = (r2, w2)"
            by (cases "report_error check (w1\<lparr>clock := clock w1 + 1\<rparr>)")
          from report_error_trace[OF rep]
          have t2: "trace w2 = trace w1" "clock w2 = clock w1 + 1" by simp_all
          show ?thesis
          proof (cases r2)
            case (Inl e)
            with "1.prems" False poll Inr st notdone rep t2 cs1 show ?thesis
              by (subst (asm) wait_loop.simps) (auto simp: bind_apply)
          next
            case (Inr u)
            with "1.prems" False poll \<open>r1 = Inr check\<close> st notdone rep
            have "wait_loop B selflink operation (timeout + 1) w2 = (r, w')"
              by (subst (asm) wait_loop.simps) (simp add: bind_apply)
            from "1.IH"[OF False notdone this] obtain cs2
              where cs2: "trace w' = trace w2 @ cs2" "filter mutating cs2 = []"
                "length cs2 \<le> 61 - (timeout + 1)" "clock w' \<le> clock w2 + (61 - (timeout + 1))"
              by blast
            have "trace w' = trace w @ (cs1 @ cs2)" using cs1 cs2 t2 by simp
            moreover have "filter mutating (cs1 @ cs2) = []" using cs1 cs2 by simp
            moreover have "length (cs1 @ cs2) \<le> 61 - timeout" using cs1 cs2 False by simp
            moreover have "clock w' \<le> clock w + (61 - timeout)" using cs1 cs2 t2 False by simp
            ultimately show ?thesis by blast
          qed
        qed
      qed
    qed
  qed
qed

lemma wait_for_operation_trace:
  assumes "wait_for_operation B operation w = (r, w')"
  shows "\<exists>cs. trace w' = trace w @ cs \<and> filter mutating cs = [] \<and> length cs \<le> 61
              \<and> clock w' \<le> clock w + 61"
proof (cases "getitem operation ''selfLink''")
  case (Inl e)
  with assms show ?thesis by (simp add: wait_for_operation_def)
next
  case link: (Inr selflink)
  show ?thesis
  proof (cases "getitem operation ''name''")
    case (Inl e)
    with assms link show ?thesis by (simp add: wait_for_operation_def)
  next
    case (Inr opname)
    with assms link have "wait_loop B selflink opname 0 w = (r, w')"
      by (simp add: wait_for_operation_def)
    from wait_loop_trace[OF this] show ?thesis by simp
  qed
qed

section \<open>Networks: properties\<close>

text \<open>
  C4. A malformed CIDR, with the subnet wanted, is refused with a tagged failure, but only
  after the network has been inserted and its operation waited for: the first request of
  the call is the mutating \<open>networks().insert\<close>, and the validation comes after it. No
  subnet and no firewall rule is asked for, the network stays behind.
\<close>

theorem create_network_validates_after_insert:
  assumes inserted: "B (remote w) (NetworksInsert
             (JObj [(''name'', JStr name), (''autoCreateSubnetworks'', JBool (cidr = JNull))]))
             = (Inr operation, s1)"
    and waited: "wait_for_operation B operation
             (w\<lparr>remote := s1, trace := trace w @ [NetworksInsert
                (JObj [(''name'', JStr name), (''autoCreateSubnetworks'', JBool (cidr = JNull))])]\<rparr>)
             = (Inr (), w')"
    and wanted: "get_default overrides ''create_subnet'' (JBool True) = Inr flag" "truthy flag"
    and given: "cidr \<noteq> JNull"
    and malformed: "\<not> ip_network cidr"
  shows "create_network B self ip_network name cidr overrides w
           = (Inr (Failure [Lit ''Invalid Cidr '', Val cidr]), w')
         \<and> (\<exists>polls. calls_made w w' = NetworksInsert
                (JObj [(''name'', JStr name), (''autoCreateSubnetworks'', JBool False)]) # polls
                \<and> filter mutating polls = [])
         \<and> \<not> no_mutation w w'"
proof -
  let ?insert = "NetworksInsert (JObj [(''name'', JStr name), (''autoCreateSubnetworks'', JBool (cidr = JNull))])"
  have run: "create_network B self ip_network name cidr overrides w
           = (Inr (Failure [Lit ''Invalid Cidr '', Val cidr]), w')"
    using inserted waited wanted given malformed
    by (simp add: create_network_def bind_apply execute_apply)
  from wait_for_operation_trace[OF waited] obtain polls
    where polls: "trace w' = (trace w @ [?insert]) @ polls" "filter mutating polls = []"
    by auto
  then have calls: "calls_made w w' = ?insert # polls"
    by (simp add: calls_made_def)
  with given polls have "\<exists>polls. calls_made w w' = NetworksInsert
                (JObj [(''name'', JStr name), (''autoCreateSubnetworks'', JBool False)]) # polls
                \<and> filter mutating polls = []"
    by simp
  moreover from calls have "\<not> no_mutation w w'"
    by (simp add: no_mutation_def)
  ultimately show ?thesis using run by simp
qed

lemma wait_one_vm_done:
  "wait_for_operation (one_vm st) done_operation w
     = (Inr (), w\<lparr>trace := trace w @ [ZoneOperationsGet (JStr ''op-2'')]\<rparr>)"
  by (simp add: wait_for_operation_def done_operation_def wait_loop.simps[of _ _ _ 0]
                poll_operation_def bind_apply execute_apply one_vm_def report_error_def startswith_def)

theorem create_network_validates_after_insert_witness:
  "create_network (one_vm ''RUNNING'') self0 (\<lambda>v. v = JStr ''10.0.0.0/24'') ''net1''
       (JStr ''not-a-cidr'') (JObj []) (world0 ())
     = (Inr (Failure [Lit ''Invalid Cidr '', Val (JStr ''not-a-cidr'')]),
        \<lparr>remote = (),
           trace = [NetworksInsert (JObj [(''name'', JStr ''net1''), (''autoCreateSubnetworks'', JBool False)]),
                    ZoneOperationsGet (JStr ''op-2'')],
           clock = 0, console = []\<rparr>)
   \<and> \<not> no_mutation (world0 ())
        \<lparr>remote = (),
           trace = [NetworksInsert (JObj [(''name'', JStr ''net1''), (''autoCreateSubnetworks'', JBool False)]),
                    ZoneOperationsGet (JStr ''op-2'')],
           clock = 0, console = []\<rparr>"
proof -
  let ?w' = "\<lparr>remote = (),
           trace = [NetworksInsert (JObj [(''name'', JStr ''net1''), (''autoCreateSubnetworks'', JBool False)]),
                    ZoneOperationsGet (JStr ''op-2'')],
           clock = 0, console = []\<rparr>"
  have inserted: "one_vm ''RUNNING'' (remote (world0 ())) (NetworksInsert
             (JObj [(''name'', JStr ''net1''), (''autoCreateSubnetworks'', JBool (JStr ''not-a-cidr'' = JNull))]))
             = (Inr done_operation, ())"
    by (simp add: one_vm_def)
  have waited: "wait_for_operation (one_vm ''RUNNING'') done_operation
             ((world0 ())\<lparr>remote := (), trace := trace (world0 ()) @ [NetworksInsert
                (JObj [(''name'', JStr ''net1''), (''autoCreateSubnetworks'', JBool (JStr ''not-a-cidr'' = JNull))])]\<rparr>)
             = (Inr (), ?w')"
    by (simp add: wait_one_vm_done world0_def)
  have wanted: "get_default (JObj []) ''create_subnet'' (JBool True) = Inr (JBool True)" "truthy (JBool True)"
    by simp_all
  have given: "JStr ''not-a-cidr'' \<noteq> JNull" by simp
  have malformed: "\<not> (\<lambda>v. v = JStr ''10.0.0.0/24'') (JStr ''not-a-cidr'')" by simp
  show ?thesis
    using create_network_validates_after_insert[where B="one_vm ''RUNNING''" and w="world0 ()"
            and self=self0 and ip_network="\<lambda>v. v = JStr ''10.0.0.0/24''" and name="''net1''"
            and cidr="JStr ''not-a-cidr''" and overrides="JObj []",
            OF inserted waited wanted given malformed]
    by simp
qed

section \<open>The cluster-prefix rule: properties\<close>

lemma split_on_nonempty: "split_on c s \<noteq> []"
  by (induction s) (auto split: list.splits)

lemma split_on_hd: "hd (split_on c s) = takeWhile (\<lambda>x. x \<noteq> c) s"
  using split_on_nonempty[of c]
  by (induction s) (auto split: list.splits)

lemma split_on_second:
  "c \<in> set s \<Longrightarrow> split_on c s ! 1 = takeWhile (\<lambda>x. x \<noteq> c) (drop 1 (dropWhile (\<lambda>x. x \<noteq> c) s))"
proof (induction s)
  case Nil
  then show ?case by simp
next
  case (Cons x xs)
  show ?case
  proof (cases "x = c")
    case True
    then show ?thesis using split_on_hd[of c xs] split_on_nonempty[of c xs]
      by (simp add: hd_conv_nth)
  next
    case False
    with Cons.prems have "c \<in> set xs" by simp
    from Cons.IH[OF this] False split_on_nonempty[of c xs] show ?thesis
      by (cases "split_on c xs") auto
  qed
qed

lemma join_take_1: "str_join sep (take 1 (split_on c s)) = hd (split_on c s)"
  using split_on_nonempty[of c s] by (cases "split_on c s") simp_all

text \<open>
  C6. In \<open>reserve_dns\<close> and \<open>delete_dns\<close> alike, a cluster is extracted exactly when the
  fragment of the fully-qualified name before its first hyphen equals its second
  dot-separated label, and the cluster is that fragment. The record name is then the first
  label of the fully-qualified name followed by a dot and the cluster; otherwise name and
  domain are used unchanged.
\<close>

theorem cluster_rule_extracts:
  "fst (cluster_rule name domain)
     = (if before_first_hyphen (name @ ''.'' @ domain) = second_label (name @ ''.'' @ domain)
        then Some (before_first_hyphen (name @ ''.'' @ domain)) else None)
   \<and> dns_entry (fst (cluster_rule name domain)) (fst (snd (cluster_rule name domain)))
     = (if before_first_hyphen (name @ ''.'' @ domain) = second_label (name @ ''.'' @ domain)
        then first_label (name @ ''.'' @ domain) @ ''.'' @ before_first_hyphen (name @ ''.'' @ domain)
        else name)
   \<and> (before_first_hyphen (name @ ''.'' @ domain) = second_label (name @ ''.'' @ domain)
      \<or> snd (cluster_rule name domain) = (name, domain))"
proof -
  have dot: "CHR ''.'' \<in> set (name @ ''.'' @ domain)" by simp
  have second: "split_on CHR ''.'' (name @ ''.'' @ domain) ! 1 = second_label (name @ ''.'' @ domain)"
    using split_on_second[OF dot] by (simp add: second_label_def)
  have first: "hd (split_on CHR ''-'' (name @ ''.'' @ domain)) = before_first_hyphen (name @ ''.'' @ domain)"
    by (simp add: split_on_hd before_first_hyphen_def)
  have host: "str_join ''.'' (take 1 (split_on CHR ''.'' (name @ ''.'' @ domain))) = first_label (name @ ''.'' @ domain)"
    by (simp only: join_take_1 split_on_hd first_label_def)
  show ?thesis
    unfolding cluster_rule_def Let_def first second host
    by (simp add: dns_entry_def)
qed

lemma cluster_rule_cluster_node:
  "cluster_rule ''mycluster-ctlplane-0'' ''mycluster.example.com''
     = (Some ''mycluster'', ''mycluster-ctlplane-0'', ''example.com'')"
  by (simp add: cluster_rule_def Let_def str_replace_def replace_nonempty.simps startswith_def)

lemma cluster_rule_ordinary:
  "cluster_rule ''standalone'' ''example.com'' = (None, ''standalone'', ''example.com'')"
  by (simp add: cluster_rule_def Let_def)

theorem cluster_rule_extracts_witness:
  "fst (cluster_rule ''mycluster-ctlplane-0'' ''mycluster.example.com'') = Some ''mycluster''
   \<and> dns_entry (fst (cluster_rule ''mycluster-ctlplane-0'' ''mycluster.example.com''))
         (fst (snd (cluster_rule ''mycluster-ctlplane-0'' ''mycluster.example.com'')))
       = ''mycluster-ctlplane-0.mycluster''
   \<and> fst (cluster_rule ''ctlplane-0'' ''mycluster.example.com'') = None
   \<and> dns_entry (fst (cluster_rule ''ctlplane-0'' ''mycluster.example.com''))
         (fst (snd (cluster_rule ''ctlplane-0'' ''mycluster.example.com'')))
       = ''ctlplane-0''"
  using cluster_rule_extracts[of "''mycluster-ctlplane-0''" "''mycluster.example.com''"]
        cluster_rule_extracts[of "''ctlplane-0''" "''mycluster.example.com''"]
  by (auto simp: before_first_hyphen_def second_label_def first_label_def)

section \<open>What a program sends: rules\<close>

lemma sendsD:
  "sends P m \<Longrightarrow> m w = (r, w') \<Longrightarrow> \<exists>cs. trace w' = trace w @ cs \<and> filter (\<lambda>c. \<not> P c) cs = []"
  unfolding sends_def by (metis snd_conv)

lemma sends_return [intro!]: "sends P (return x)"
  by (simp add: sends_def)

lemma sends_raise [intro!]: "sends P (raise e)"
  by (simp add: sends_def)

lemma sends_lift [intro!]: "sends P (lift r)"
  by (simp add: sends_def)

lemma sends_say [intro!]: "sends P (say l)"
  by (simp add: sends_def)

lemma sends_sleep [intro!]: "sends P (sleep n)"
  by (simp add: sends_def)

lemma sends_execute: "P c \<Longrightarrow> sends P (execute B c)"
  by (simp add: sends_def execute_apply split: prod.splits)

lemma sends_bind [intro!]:
  assumes "sends P m" and "\<And>x. sends P (f x)"
  shows "sends P (bind m f)"
  unfolding sends_def
proof
  fix w
  obtain r w1 where m: "m w = (r, w1)" by (cases "m w")
  from sendsD[OF assms(1) m] obtain cs1
    where cs1: "trace w1 = trace w @ cs1" "filter (\<lambda>c. \<not> P c) cs1 = []" by blast
  show "\<exists>cs. trace (snd (bind m f w)) = trace w @ cs \<and> filter (\<lambda>c. \<not> P c) cs = []"
  proof (cases r)
    case (Inl e)
    with m cs1 show ?thesis by (simp add: bind_apply)
  next
    case (Inr x)
    obtain r2 w2 where f: "f x w1 = (r2, w2)" by (cases "f x w1")
    from sendsD[OF assms(2) f] obtain cs2
      where cs2: "trace w2 = trace w1 @ cs2" "filter (\<lambda>c. \<not> P c) cs2 = []" by blast
    have "trace (snd (bind m f w)) = trace w @ (cs1 @ cs2)"
      using m Inr f cs1 cs2 by (simp add: bind_apply)
    moreover have "filter (\<lambda>c. \<not> P c) (cs1 @ cs2) = []" using cs1 cs2 by simp
    ultimately show ?thesis by blast
  qed
qed

lemma sends_try_except [intro!]:
  assumes "sends P m" and "\<And>e. sends P (h e)"
  shows "sends P (try_except m h)"
  unfolding sends_def
proof
  fix w
  obtain r w1 where m: "m w = (r, w1)" by (cases "m w")
  from sendsD[OF assms(1) m] obtain cs1
    where cs1: "trace w1 = trace w @ cs1" "filter (\<lambda>c. \<not> P c) cs1 = []" by blast
  show "\<exists>cs. trace (snd (try_except m h w)) = trace w @ cs \<and> filter (\<lambda>c. \<not> P c) cs = []"
  proof (cases r)
    case (Inr x)
    with m cs1 show ?thesis by (simp add: try_except_def)
  next
    case (Inl e)
    obtain r2 w2 where h: "h e w1 = (r2, w2)" by (cases "h e w1")
    from sendsD[OF assms(2) h] obtain cs2
      where cs2: "trace w2 = trace w1 @ cs2" "filter (\<lambda>c. \<not> P c) cs2 = []" by blast
    have "trace (snd (try_except m h w)) = trace w @ (cs1 @ cs2)"
      using m Inl h cs1 cs2 by (simp add: try_except_def)
    moreover have "filter (\<lambda>c. \<not> P c) (cs1 @ cs2) = []" using cs1 cs2 by simp
    ultimately show ?thesis by blast
  qed
qed

lemma sends_if [intro!]: "(c \<Longrightarrow> sends P a) \<Longrightarrow> (\<not> c \<Longrightarrow> sends P b) \<Longrightarrow> sends P (if c then a else b)"
  by simp

lemma sends_case_option [intro!]:
  "sends P a \<Longrightarrow> (\<And>x. sends P (b x)) \<Longrightarrow> sends P (case v of None \<Rightarrow> a | Some x \<Rightarrow> b x)"
  by (cases v) simp_all

section \<open>Reserving DNS records: properties\<close>

lemma sends_lookup_instance: "sends (\<lambda>c. \<not> is_change c) (lookup_instance B name)"
  unfolding lookup_instance_def by (intro sends_try_except sends_bind sends_execute sends_return sends_say) simp

lemma sends_internalip: "sends (\<lambda>c. \<not> is_change c) (internalip B name)"
  unfolding internalip_def by (auto intro: sends_lookup_instance)

lemma sends_ip_of: "sends (\<lambda>c. \<not> is_change c) (ip_of B self name)"
  unfolding ip_of_def by (auto intro: sends_lookup_instance)

lemma sends_internalip_loop: "sends (\<lambda>c. \<not> is_change c) (internalip_loop B name counter)"
proof (induction B name counter rule: internalip_loop.induct)
  case (1 B name counter)
  show ?case
    by (subst internalip_loop.simps) (auto intro: sends_internalip "1.IH")
qed

lemma sends_ip_loop: "sends (\<lambda>c. \<not> is_change c) (ip_loop B self name counter)"
proof (induction B self name counter rule: ip_loop.induct)
  case (1 B self name counter)
  show ?case
    by (subst ip_loop.simps) (auto intro: sends_ip_of "1.IH" sends_execute)
qed

lemma sends_grab_internalip: "sends (\<lambda>c. \<not> is_change c) (grab_internalip B cluster name)"
  unfolding grab_internalip_def by (auto intro: sends_internalip_loop)

lemma sends_resolve_ip: "sends (\<lambda>c. \<not> is_change c) (resolve_ip B self name nets ip)"
  unfolding resolve_ip_def by (auto intro: sends_ip_loop split: json.split)


text \<open>
  C7. Once the zone is found and an address is there, \<open>reserve_dns\<close> returns success having
  submitted exactly one change-set, which holds the record of the instance followed by one
  record for each alias, in order. The record of the alias \<open>*\<close> is an address record named
  \<open>*.apps.<cluster>.<domain>.\<close> when a cluster was extracted and the name holds \<open>ctlplane\<close>
  or \<open>worker\<close>, and \<open>*.<name>.<domain>.\<close> otherwise; the record of any other alias is a
  \<open>CNAME\<close> pointing at the entry of the instance.
\<close>

theorem reserve_dns_records:
  assumes rule: "cluster_rule name0 domain0 = (cluster, name, domain)"
    and listed: "B (remote w) DnsListZones = (Inr (JList zones), s1)"
    and zone: "zones_for domain zones \<noteq> []"
    and internal: "grab_internalip B cluster name (w\<lparr>remote := s1, trace := trace w @ [DnsListZones]\<rparr>)
                     = (Inr internal, w2)"
    and resolved: "resolve_ip B self name nets ip0 w2 = (Inr ip, w3)"
    and address: "ip \<noteq> JNull"
    and entry: "entry = dns_entry cluster name @ ''.'' @ domain @ ''.''"
    and change: "change = DnsChangesCreate (hd (zones_for domain zones))
                   (record_set (JStr entry) (JStr ''A'') (JInt 300) (JList [if internal = JNull then ip else internal])
                    # map (alias_record cluster name domain ip entry) aliases) []"
    and submitted: "B (remote w3) change = (Inr response, s4)"
  shows "reserve_dns B self str_of name0 nets (Some domain0) ip0 aliases w
           = (Inr (Some Success), w3\<lparr>remote := s4, trace := trace w3 @ [change]\<rparr>)
         \<and> filter is_change (calls_made w (w3\<lparr>remote := s4, trace := trace w3 @ [change]\<rparr>)) = [change]
         \<and> (\<forall>c. cluster = Some c \<and> (str_contains ''ctlplane'' name \<or> str_contains ''worker'' name) \<longrightarrow>
                alias_record cluster name domain ip entry ''*''
                  = record_set (JStr (''*.apps.'' @ c @ ''.'' @ domain @ ''.'')) (JStr ''A'') (JInt 300) (JList [ip]))
         \<and> (\<not> cluster_node cluster name \<longrightarrow>
                alias_record cluster name domain ip entry ''*''
                  = record_set (JStr (''*.'' @ name @ ''.'' @ domain @ ''.'')) (JStr ''A'') (JInt 300) (JList [ip]))
         \<and> (\<forall>a. a \<noteq> ''*'' \<longrightarrow>
                alias_record cluster name domain ip entry a
                  = record_set (JStr (if str_contains ''.'' a then a @ ''.'' else a @ ''.'' @ domain @ ''.''))
                      (JStr ''CNAME'') (JInt 300) (JList [JStr entry]))"
proof -
  let ?w4 = "w3\<lparr>remote := s4, trace := trace w3 @ [change]\<rparr>"
  have run: "reserve_dns B self str_of name0 nets (Some domain0) ip0 aliases w = (Inr (Some Success), ?w4)"
    unfolding reserve_dns_def
    using rule listed zone internal resolved address submitted[unfolded change entry]
    by (simp add: bind_apply execute_apply change entry)
  from sendsD[OF sends_grab_internalip internal] obtain cs2
    where cs2: "trace w2 = (trace w @ [DnsListZones]) @ cs2" "filter (\<lambda>c. \<not> \<not> is_change c) cs2 = []"
    by auto
  from sendsD[OF sends_resolve_ip resolved] obtain cs3
    where cs3: "trace w3 = trace w2 @ cs3" "filter (\<lambda>c. \<not> \<not> is_change c) cs3 = []"
    by auto
  have calls: "calls_made w ?w4 = DnsListZones # cs2 @ cs3 @ [change]"
    using cs2 cs3 by (simp add: calls_made_def)
  have "is_change change" by (simp add: change)
  then have once: "filter is_change (calls_made w ?w4) = [change]"
    using cs2(2) cs3(2) by (simp add: calls)
  have wild_cluster: "\<forall>c. cluster = Some c \<and> (str_contains ''ctlplane'' name \<or> str_contains ''worker'' name) \<longrightarrow>
                alias_record cluster name domain ip entry ''*''
                  = record_set (JStr (''*.apps.'' @ c @ ''.'' @ domain @ ''.'')) (JStr ''A'') (JInt 300) (JList [ip])"
    by (simp add: alias_record_def)
  have wild_plain: "\<not> cluster_node cluster name \<longrightarrow>
                alias_record cluster name domain ip entry ''*''
                  = record_set (JStr (''*.'' @ name @ ''.'' @ domain @ ''.'')) (JStr ''A'') (JInt 300) (JList [ip])"
    by (auto simp: alias_record_def cluster_node_def split: option.splits)
  have cname: "\<forall>a. a \<noteq> ''*'' \<longrightarrow>
                alias_record cluster name domain ip entry a
                  = record_set (JStr (if str_contains ''.'' a then a @ ''.'' else a @ ''.'' @ domain @ ''.''))
                      (JStr ''CNAME'') (JInt 300) (JList [JStr entry])"
    by (simp add: alias_record_def)
  from run once wild_cluster wild_plain cname show ?thesis by blast
qed


lemma zones_for_example: "zones_for ''example.com'' [example_zone] = [example_zone]"
  by (simp add: zones_for_def example_zone_def attr_def)

lemma grab_internalip_example:
  "grab_internalip dns_backend (Some ''mycluster'') ''mycluster-ctlplane-0'' w
     = (Inr (JStr ''10.0.0.5''), w\<lparr>trace := trace w @ [InstancesGet ''mycluster-ctlplane-0'']\<rparr>)"
  by (simp add: grab_internalip_def cluster_node_def startswith_def internalip_loop.simps[of _ _ 0]
                internalip_def lookup_instance_def try_except_def bind_apply execute_apply dns_backend_def)

theorem reserve_dns_records_witness:
  "reserve_dns dns_backend self0 (\<lambda>v. []) ''mycluster-ctlplane-0'' [] (Some ''mycluster.example.com'')
       (JStr ''1.2.3.4'') [''*'', ''api''] (world0 ())
     = (Inr (Some Success),
        \<lparr>remote = (),
           trace = [DnsListZones, InstancesGet ''mycluster-ctlplane-0'',
                    DnsChangesCreate example_zone
                      [record_set (JStr ''mycluster-ctlplane-0.mycluster.example.com.'') (JStr ''A'') (JInt 300)
                         (JList [JStr ''10.0.0.5'']),
                       record_set (JStr ''*.apps.mycluster.example.com.'') (JStr ''A'') (JInt 300)
                         (JList [JStr ''1.2.3.4'']),
                       record_set (JStr ''api.example.com.'') (JStr ''CNAME'') (JInt 300)
                         (JList [JStr ''mycluster-ctlplane-0.mycluster.example.com.''])] []],
           clock = 0, console = []\<rparr>)
   \<and> reserve_dns dns_backend self0 (\<lambda>v. []) ''standalone'' [] (Some ''example.com'')
       (JStr ''1.2.3.4'') [''*''] (world0 ())
     = (Inr (Some Success),
        \<lparr>remote = (),
           trace = [DnsListZones,
                    DnsChangesCreate example_zone
                      [record_set (JStr ''standalone.example.com.'') (JStr ''A'') (JInt 300)
                         (JList [JStr ''1.2.3.4'']),
                       record_set (JStr ''*.standalone.example.com.'') (JStr ''A'') (JInt 300)
                         (JList [JStr ''1.2.3.4''])] []],
           clock = 0, console = []\<rparr>)"
proof -
  have listed: "dns_backend (remote (world0 ())) DnsListZones = (Inr (JList [example_zone]), ())"
    by (simp add: dns_backend_def)
  have zone: "zones_for ''example.com'' [example_zone] \<noteq> []"
    by (simp add: zones_for_example)
  have address: "JStr ''1.2.3.4'' \<noteq> JNull" by simp
  have accepted: "dns_backend s (DnsChangesCreate z adds dels) = (Inr JNull, ())" for s z adds dels
    by (simp add: dns_backend_def)
  have resolved: "resolve_ip dns_backend self0 n [] (JStr ''1.2.3.4'') w = (Inr (JStr ''1.2.3.4''), w)" for n w
    by (simp add: resolve_ip_def)
  have plain: "grab_internalip dns_backend None ''standalone'' w = (Inr JNull, w)" for w
    by (simp add: grab_internalip_def cluster_node_def)
  have node: "str_contains ''ctlplane'' ''mycluster-ctlplane-0''"
    by (simp add: startswith_def)
  have no_dot: "\<not> str_contains ''.'' ''api''"
    by (simp add: startswith_def)
  note clustered = reserve_dns_records[where B=dns_backend and w="world0 ()" and self=self0
      and str_of="\<lambda>v. []" and nets="[]" and aliases="[''*'', ''api'']",
      OF cluster_rule_cluster_node listed zone grab_internalip_example resolved address refl refl accepted]
  note ordinary = reserve_dns_records[where B=dns_backend and w="world0 ()" and self=self0
      and str_of="\<lambda>v. []" and nets="[]" and aliases="[''*'']",
      OF cluster_rule_ordinary listed zone plain resolved address refl refl accepted]
  show ?thesis
    using clustered ordinary
    by (simp add: world0_def zones_for_example dns_entry_def alias_record_def node no_dot
             del: str_contains.simps)
qed


section \<open>What the public operations return\<close>

lemma lookup_vm_fault:
  assumes "B (remote w) (InstancesGet name) = (Inl e, s')"
  shows "lookup_vm B name w
           = (Inr None, w\<lparr>remote := s', trace := trace w @ [InstancesGet name],
                          console := console w @ [Error [Lit ''VM '', Lit name, Lit '' not found'']]\<rparr>)"
  using assms by (simp add: lookup_vm_def try_except_def bind_apply execute_apply)

lemma create_bucket_never_tagged:
  "fst (create_bucket B self bucket make_public w) \<noteq> Inr (Some r)"
  by (auto simp: create_bucket_def bind_apply split: prod.splits sum.splits if_splits)

text \<open>
  C9, as the code has it, for the three operations the claim cites. None of them returns
  a tagged result whatever the inputs and the backend do, and each lets a fault escape.

  \<^item> \<open>create_bucket\<close> never returns a tagged result: where it returns, it returns \<open>None\<close>.
    A fault of the bucket listing escapes from it, and so does a fault of the bucket
    creation.
  \<^item> \<open>update_aliases\<close> returns the tagged failure \<open>VM <name> not found\<close> whenever the lookup
    of the instance raises. When the lookup answers, it returns the tagged success or a
    fault escapes; one that does is the fault of reading \<open>networkInterfaces\<close> off an
    instance that has none.
  \<^item> \<open>reserve_dns\<close>, called with a domain, lets a fault of the zone listing escape. When the
    listing answers with the zones, it returns the tagged failure
    \<open>Domain <domain> not found\<close> if no zone matches; \<open>None\<close> if a zone matches and the search
    for the address ends without one; and, if that search ends with an address, the tagged
    success when the change-set is accepted and the fault of its submission otherwise.
\<close>

theorem public_operation_outcomes:
  "(\<forall>r. fst (create_bucket B self bucket make_public w) \<noteq> Inr (Some r))
   \<and> (\<forall>e s1.
         B (remote w) StorageListBuckets = (Inl e, s1)
         \<longrightarrow> fst (create_bucket B self bucket make_public w) = Inl e)
   \<and> (\<forall>e buckets s1 s2.
         B (remote w) StorageListBuckets = (Inr (JList buckets), s1)
         \<and> JStr bucket \<notin> set (map (\<lambda>b. attr b ''name'') buckets)
         \<and> B s1 (StorageCreateBucket bucket) = (Inl e, s2)
         \<longrightarrow> fst (create_bucket B self bucket make_public w) = Inl e)
   \<and> (\<forall>e s'.
         B (remote w) (InstancesGet name) = (Inl e, s')
         \<longrightarrow> update_aliases B self name cidr w
               = (Inr (Some (Failure [Lit ''VM '', Lit name, Lit '' not found''])),
                  w\<lparr>remote := s', trace := trace w @ [InstancesGet name],
                     console := console w @ [Error [Lit ''VM '', Lit name, Lit '' not found'']]\<rparr>))
   \<and> (\<forall>vm s'.
         B (remote w) (InstancesGet name) = (Inr vm, s')
         \<longrightarrow> fst (update_aliases B self name cidr w) = Inr (Some Success)
             \<or> (\<exists>e. fst (update_aliases B self name cidr w) = Inl e))
   \<and> (\<forall>vm s' e.
         B (remote w) (InstancesGet name) = (Inr vm, s')
         \<and> getitem vm ''networkInterfaces'' = Inl e
         \<longrightarrow> fst (update_aliases B self name cidr w) = Inl e)
   \<and> (\<forall>e s1.
         B (remote w) DnsListZones = (Inl e, s1)
         \<longrightarrow> fst (reserve_dns B self str_of name nets (Some domain) ip aliases w) = Inl e)
   \<and> (\<forall>zones s1.
         B (remote w) DnsListZones = (Inr (JList zones), s1)
         \<and> zones_for (snd (snd (cluster_rule name domain))) zones = []
         \<longrightarrow> fst (reserve_dns B self str_of name nets (Some domain) ip aliases w)
               = Inr (Some (Failure [Lit ''Domain '', Lit (snd (snd (cluster_rule name domain))),
                                     Lit '' not found''])))
   \<and> (\<forall>zones s1 internal w2 w3.
         B (remote w) DnsListZones = (Inr (JList zones), s1)
         \<and> zones_for (snd (snd (cluster_rule name domain))) zones \<noteq> []
         \<and> grab_internalip B (fst (cluster_rule name domain)) (fst (snd (cluster_rule name domain)))
               (w\<lparr>remote := s1, trace := trace w @ [DnsListZones]\<rparr>) = (Inr internal, w2)
         \<and> resolve_ip B self (fst (snd (cluster_rule name domain))) nets ip w2 = (Inr JNull, w3)
         \<longrightarrow> fst (reserve_dns B self str_of name nets (Some domain) ip aliases w) = Inr None)
   \<and> (\<forall>zones s1 internal w2 found w3.
         B (remote w) DnsListZones = (Inr (JList zones), s1)
         \<and> zones_for (snd (snd (cluster_rule name domain))) zones \<noteq> []
         \<and> grab_internalip B (fst (cluster_rule name domain)) (fst (snd (cluster_rule name domain)))
               (w\<lparr>remote := s1, trace := trace w @ [DnsListZones]\<rparr>) = (Inr internal, w2)
         \<and> resolve_ip B self (fst (snd (cluster_rule name domain))) nets ip w2 = (Inr found, w3)
         \<and> found \<noteq> JNull
         \<longrightarrow> fst (reserve_dns B self str_of name nets (Some domain) ip aliases w)
               = (case fst (B (remote w3)
                        (DnsChangesCreate (hd (zones_for (snd (snd (cluster_rule name domain))) zones))
                           (record_set
                              (JStr (dns_entry (fst (cluster_rule name domain))
                                       (fst (snd (cluster_rule name domain)))
                                     @ ''.'' @ snd (snd (cluster_rule name domain)) @ ''.''))
                              (JStr ''A'') (JInt 300) (JList [if internal = JNull then found else internal])
                            # map (alias_record (fst (cluster_rule name domain))
                                     (fst (snd (cluster_rule name domain)))
                                     (snd (snd (cluster_rule name domain))) found
                                     (dns_entry (fst (cluster_rule name domain))
                                        (fst (snd (cluster_rule name domain)))
                                      @ ''.'' @ snd (snd (cluster_rule name domain)) @ ''.''))
                                aliases)
                           [])) of
                    Inl e \<Rightarrow> Inl e
                  | Inr response \<Rightarrow> Inr (Some Success)))"
proof -
  have bucket: "\<forall>r. fst (create_bucket B self bucket make_public w) \<noteq> Inr (Some r)"
    by (simp add: create_bucket_never_tagged)
  have listing_fault: "\<forall>e s1.
         B (remote w) StorageListBuckets = (Inl e, s1)
         \<longrightarrow> fst (create_bucket B self bucket make_public w) = Inl e"
    by (auto simp: create_bucket_def list_buckets_def bind_apply execute_apply)
  have escape: "\<forall>e buckets s1 s2.
         B (remote w) StorageListBuckets = (Inr (JList buckets), s1)
         \<and> JStr bucket \<notin> set (map (\<lambda>b. attr b ''name'') buckets)
         \<and> B s1 (StorageCreateBucket bucket) = (Inl e, s2)
         \<longrightarrow> fst (create_bucket B self bucket make_public w) = Inl e"
    by (auto simp: create_bucket_def list_buckets_def bind_apply execute_apply)
  have absent: "\<forall>e s'.
         B (remote w) (InstancesGet name) = (Inl e, s')
         \<longrightarrow> update_aliases B self name cidr w
               = (Inr (Some (Failure [Lit ''VM '', Lit name, Lit '' not found''])),
                  w\<lparr>remote := s', trace := trace w @ [InstancesGet name],
                     console := console w @ [Error [Lit ''VM '', Lit name, Lit '' not found'']]\<rparr>)"
  proof (intro allI impI)
    fix e s' assume "B (remote w) (InstancesGet name) = (Inl e, s')"
    from lookup_vm_fault[where B=B and w=w, OF this]
    show "update_aliases B self name cidr w
               = (Inr (Some (Failure [Lit ''VM '', Lit name, Lit '' not found''])),
                  w\<lparr>remote := s', trace := trace w @ [InstancesGet name],
                     console := console w @ [Error [Lit ''VM '', Lit name, Lit '' not found'']]\<rparr>)"
      by (simp add: update_aliases_def bind_apply)
  qed
  have present: "\<forall>vm s'.
         B (remote w) (InstancesGet name) = (Inr vm, s')
         \<longrightarrow> fst (update_aliases B self name cidr w) = Inr (Some Success)
             \<or> (\<exists>e. fst (update_aliases B self name cidr w) = Inl e)"
  proof (intro allI impI)
    fix vm s' assume "B (remote w) (InstancesGet name) = (Inr vm, s')"
    from lookup_vm_found[where B=B and w=w, OF this]
    show "fst (update_aliases B self name cidr w) = Inr (Some Success)
             \<or> (\<exists>e. fst (update_aliases B self name cidr w) = Inl e)"
      by (auto simp: update_aliases_def bind_apply lift_def split: prod.splits sum.splits)
  qed
  have no_interfaces: "\<forall>vm s' e.
         B (remote w) (InstancesGet name) = (Inr vm, s')
         \<and> getitem vm ''networkInterfaces'' = Inl e
         \<longrightarrow> fst (update_aliases B self name cidr w) = Inl e"
  proof (intro allI impI, elim conjE)
    fix vm s' e assume "B (remote w) (InstancesGet name) = (Inr vm, s')"
      and "getitem vm ''networkInterfaces'' = Inl e"
    from lookup_vm_found[where B=B and w=w, OF this(1)] this(2)
    show "fst (update_aliases B self name cidr w) = Inl e"
      by (simp add: update_aliases_def bind_apply)
  qed
  obtain cluster name' domain' where rule: "cluster_rule name domain = (cluster, name', domain')"
    by (cases "cluster_rule name domain")
  have zones_fault: "\<forall>e s1.
         B (remote w) DnsListZones = (Inl e, s1)
         \<longrightarrow> fst (reserve_dns B self str_of name nets (Some domain) ip aliases w) = Inl e"
    by (auto simp: reserve_dns_def rule bind_apply execute_apply)
  have no_zone: "\<forall>zones s1.
         B (remote w) DnsListZones = (Inr (JList zones), s1)
         \<and> zones_for (snd (snd (cluster_rule name domain))) zones = []
         \<longrightarrow> fst (reserve_dns B self str_of name nets (Some domain) ip aliases w)
               = Inr (Some (Failure [Lit ''Domain '', Lit (snd (snd (cluster_rule name domain))),
                                     Lit '' not found'']))"
    by (auto simp: reserve_dns_def rule bind_apply execute_apply)
  have no_address: "\<forall>zones s1 internal w2 w3.
         B (remote w) DnsListZones = (Inr (JList zones), s1)
         \<and> zones_for (snd (snd (cluster_rule name domain))) zones \<noteq> []
         \<and> grab_internalip B (fst (cluster_rule name domain)) (fst (snd (cluster_rule name domain)))
               (w\<lparr>remote := s1, trace := trace w @ [DnsListZones]\<rparr>) = (Inr internal, w2)
         \<and> resolve_ip B self (fst (snd (cluster_rule name domain))) nets ip w2 = (Inr JNull, w3)
         \<longrightarrow> fst (reserve_dns B self str_of name nets (Some domain) ip aliases w) = Inr None"
    by (auto simp: reserve_dns_def rule bind_apply execute_apply)
  have address: "\<forall>zones s1 internal w2 found w3.
         B (remote w) DnsListZones = (Inr (JList zones), s1)
         \<and> zones_for (snd (snd (cluster_rule name domain))) zones \<noteq> []
         \<and> grab_internalip B (fst (cluster_rule name domain)) (fst (snd (cluster_rule name domain)))
               (w\<lparr>remote := s1, trace := trace w @ [DnsListZones]\<rparr>) = (Inr internal, w2)
         \<and> resolve_ip B self (fst (snd (cluster_rule name domain))) nets ip w2 = (Inr found, w3)
         \<and> found \<noteq> JNull
         \<longrightarrow> fst (reserve_dns B self str_of name nets (Some domain) ip aliases w)
               = (case fst (B (remote w3)
                        (DnsChangesCreate (hd (zones_for (snd (snd (cluster_rule name domain))) zones))
                           (record_set
                              (JStr (dns_entry (fst (cluster_rule name domain))
                                       (fst (snd (cluster_rule name domain)))
                                     @ ''.'' @ snd (snd (cluster_rule name domain)) @ ''.''))
                              (JStr ''A'') (JInt 300) (JList [if internal = JNull then found else internal])
                            # map (alias_record (fst (cluster_rule name domain))
                                     (fst (snd (cluster_rule name domain)))
                                     (snd (snd (cluster_rule name domain))) found
                                     (dns_entry (fst (cluster_rule name domain))
                                        (fst (snd (cluster_rule name domain)))
                                      @ ''.'' @ snd (snd (cluster_rule name domain)) @ ''.''))
                                aliases)
                           [])) of
                    Inl e \<Rightarrow> Inl e
                  | Inr response \<Rightarrow> Inr (Some Success))"
    by (auto simp: reserve_dns_def rule bind_apply execute_apply split: prod.splits sum.splits)
  show ?thesis
    by (intro conjI) (rule bucket listing_fault escape absent present no_interfaces zones_fault
                           no_zone no_address address)+
qed


theorem public_operation_outcomes_witness:
  "update_aliases unavailable self0 ''vm1'' (JStr ''10.1.0.0/24'') (world0 ())
     = (Inr (Some (Failure [Lit ''VM '', Lit ''vm1'', Lit '' not found''])),
        \<lparr>remote = (), trace = [InstancesGet ''vm1''], clock = 0,
           console = [Error [Lit ''VM '', Lit ''vm1'', Lit '' not found'']]\<rparr>)
   \<and> fst (update_aliases (one_vm ''RUNNING'') self0 ''vm1'' (JStr ''10.1.0.0/24'') (world0 ()))
       = Inl (KeyError ''networkInterfaces'')
   \<and> fst (create_bucket no_buckets self0 ''b'' True (world0 ())) \<noteq> Inr (Some Success)
   \<and> fst (create_bucket unavailable self0 ''b'' True (world0 ()))
       = Inl (BackendError ''503 Service Unavailable'')
   \<and> fst (reserve_dns unavailable self0 (\<lambda>v. []) ''standalone'' [] (Some ''example.com'')
             (JStr ''1.2.3.4'') [] (world0 ()))
       = Inl (BackendError ''503 Service Unavailable'')
   \<and> fst (reserve_dns dns_backend self0 (\<lambda>v. []) ''standalone'' [] (Some ''example.org'')
             (JStr ''1.2.3.4'') [] (world0 ()))
       = Inr (Some (Failure [Lit ''Domain '', Lit ''example.org'', Lit '' not found'']))
   \<and> fst (reserve_dns store_backend self0 (\<lambda>v. []) ''standalone'' [JStr ''default''] (Some ''example.com'')
             JNull [] (world0 lb_store))
       = Inr None
   \<and> fst (reserve_dns dns_backend self0 (\<lambda>v. []) ''standalone'' [] (Some ''example.com'')
             (JStr ''1.2.3.4'') [] (world0 ()))
       = Inr (Some Success)"
proof -
  have down: "unavailable (remote (world0 ())) c = (Inl (BackendError ''503 Service Unavailable''), ())" for c
    by (simp add: unavailable_def)
  note lookup_down = public_operation_outcomes[where B=unavailable and w="world0 ()" and self=self0
      and name="''vm1''" and cidr="JStr ''10.1.0.0/24''",
      THEN conjunct2, THEN conjunct2, THEN conjunct2, THEN conjunct1, rule_format, OF down]
  have found: "one_vm ''RUNNING'' (remote (world0 ())) (InstancesGet ''vm1'')
                 = (Inr (vm_custom_2_4096 ''RUNNING''), ())"
    by (simp add: one_vm_def)
  have bare: "getitem (vm_custom_2_4096 ''RUNNING'') ''networkInterfaces'' = Inl (KeyError ''networkInterfaces'')"
    by (simp add: vm_custom_2_4096_def)
  note no_interfaces = public_operation_outcomes[where B="one_vm ''RUNNING''" and w="world0 ()" and self=self0
      and name="''vm1''" and cidr="JStr ''10.1.0.0/24''",
      THEN conjunct2, THEN conjunct2, THEN conjunct2, THEN conjunct2, THEN conjunct2, THEN conjunct1,
      rule_format, OF conjI[OF found bare]]
  note untagged = public_operation_outcomes[where B=no_buckets and w="world0 ()" and self=self0
      and bucket="''b''" and make_public=True, THEN conjunct1, rule_format]
  note listing_fault = public_operation_outcomes[where B=unavailable and w="world0 ()" and self=self0
      and bucket="''b''" and make_public=True, THEN conjunct2, THEN conjunct1, rule_format, OF down]
  note zones_fault = public_operation_outcomes[where B=unavailable and w="world0 ()" and self=self0
      and str_of="\<lambda>v. []" and name="''standalone''" and nets="[]" and domain="''example.com''"
      and ip="JStr ''1.2.3.4''" and aliases="[]",
      THEN conjunct2, THEN conjunct2, THEN conjunct2, THEN conjunct2, THEN conjunct2, THEN conjunct2,
      THEN conjunct1, rule_format, OF down]
  have listed: "dns_backend (remote (world0 ())) DnsListZones = (Inr (JList [example_zone]), ())"
    by (simp add: dns_backend_def)
  have org: "cluster_rule ''standalone'' ''example.org'' = (None, ''standalone'', ''example.org'')"
    by (simp add: cluster_rule_def Let_def)
  have no_org: "zones_for (snd (snd (cluster_rule ''standalone'' ''example.org''))) [example_zone] = []"
    by (simp add: org zones_for_def example_zone_def attr_def)
  note no_zone = public_operation_outcomes[where B=dns_backend and w="world0 ()" and self=self0
      and str_of="\<lambda>v. []" and name="''standalone''" and nets="[]" and domain="''example.org''"
      and ip="JStr ''1.2.3.4''" and aliases="[]",
      THEN conjunct2, THEN conjunct2, THEN conjunct2, THEN conjunct2, THEN conjunct2, THEN conjunct2,
      THEN conjunct2, THEN conjunct1, rule_format, OF conjI[OF listed no_org]]
  have stored: "store_backend (remote (world0 lb_store)) DnsListZones = (Inr (JList [example_zone]), lb_store)"
    by (simp add: store_backend_def store_other_def world0_def lb_store_def)
  have zone: "zones_for (snd (snd (cluster_rule ''standalone'' ''example.com''))) [example_zone] \<noteq> []"
    by (simp add: cluster_rule_ordinary zones_for_example)
  have plain: "grab_internalip B (fst (cluster_rule ''standalone'' ''example.com''))
                 (fst (snd (cluster_rule ''standalone'' ''example.com''))) w = (Inr JNull, w)"
    for B :: "'s backend" and w
    by (simp add: cluster_rule_ordinary grab_internalip_def cluster_node_def)
  have "fst (resolve_ip store_backend self0 ''standalone'' [JStr ''default''] JNull
               ((world0 lb_store)\<lparr>remote := lb_store, trace := trace (world0 lb_store) @ [DnsListZones]\<rparr>))
          = Inr JNull"
    by code_simp
  then have unresolved:
    "resolve_ip store_backend self0 (fst (snd (cluster_rule ''standalone'' ''example.com'')))
       [JStr ''default''] JNull
       ((world0 lb_store)\<lparr>remote := lb_store, trace := trace (world0 lb_store) @ [DnsListZones]\<rparr>)
     = (Inr JNull,
        snd (resolve_ip store_backend self0 ''standalone'' [JStr ''default''] JNull
               ((world0 lb_store)\<lparr>remote := lb_store, trace := trace (world0 lb_store) @ [DnsListZones]\<rparr>)))"
    by (simp add: prod_eq_iff cluster_rule_ordinary)
  note no_address = public_operation_outcomes[where B=store_backend and w="world0 lb_store" and self=self0
      and str_of="\<lambda>v. []" and name="''standalone''" and nets="[JStr ''default'']"
      and domain="''example.com''" and ip=JNull and aliases="[]",
      THEN conjunct2, THEN conjunct2, THEN conjunct2, THEN conjunct2, THEN conjunct2, THEN conjunct2,
      THEN conjunct2, THEN conjunct2, THEN conjunct1, rule_format,
      OF conjI[OF stored conjI[OF zone conjI[OF plain unresolved]]]]
  have accepted: "dns_backend s (DnsChangesCreate z adds dels) = (Inr JNull, ())" for s z adds dels
    by (simp add: dns_backend_def)
  have resolved: "resolve_ip dns_backend self0 n [] (JStr ''1.2.3.4'') w = (Inr (JStr ''1.2.3.4''), w)" for n w
    by (simp add: resolve_ip_def)
  have address: "JStr ''1.2.3.4'' \<noteq> JNull" by simp
  note success = public_operation_outcomes[where B=dns_backend and w="world0 ()" and self=self0
      and str_of="\<lambda>v. []" and name="''standalone''" and nets="[]" and domain="''example.com''"
      and ip="JStr ''1.2.3.4''" and aliases="[]",
      THEN conjunct2, THEN conjunct2, THEN conjunct2, THEN conjunct2, THEN conjunct2, THEN conjunct2,
      THEN conjunct2, THEN conjunct2, THEN conjunct2, rule_format,
      OF conjI[OF listed conjI[OF zone conjI[OF plain conjI[OF resolved address]]]]]
  show ?thesis
    using lookup_down no_interfaces untagged[of Success] listing_fault zones_fault no_zone no_address success
    by (simp add: world0_def org accepted)
qed

text \<open>
  The claim as stated fails on \<open>create_bucket\<close>: with no bucket of that name it creates the
  bucket and returns \<open>None\<close>, which is no tagged result, and against a backend that is
  unavailable the fault of the listing escapes to the caller.
\<close>

theorem create_bucket_counterexample:
  "create_bucket no_buckets self0 ''b'' False (world0 ())
     = (Inr None, \<lparr>remote = (), trace = [StorageListBuckets, StorageCreateBucket ''b''],
                     clock = 0, console = []\<rparr>)
   \<and> create_bucket unavailable self0 ''b'' False (world0 ())
     = (Inl (BackendError ''503 Service Unavailable''),
        \<lparr>remote = (), trace = [StorageListBuckets], clock = 0, console = []\<rparr>)"
  by (simp add: create_bucket_def list_buckets_def bind_apply execute_apply no_buckets_def
                unavailable_def world0_def)

section \<open>The resource store: what a teardown can do to it\<close>

lemma shrinks_refl [simp]: "shrinks s s"
  by (simp add: shrinks_def)

lemma shrinks_trans: "shrinks a b \<Longrightarrow> shrinks b c \<Longrightarrow> shrinks a c"
  by (auto simp: shrinks_def)

lemma store_other_shrinks: "shrinks s (snd (store_other s c))"
  by (cases c) (auto simp: store_other_def shrinks_def split: option.splits)

lemma store_backend_shrinks: "shrinks s (snd (store_backend s c))"
proof (cases "c \<in> set (refused s)")
  case True
  then show ?thesis by (simp add: store_backend_def)
next
  case False
  show ?thesis
  proof (cases "kind_listed c")
    case (Some k)
    with False show ?thesis by (simp add: store_backend_def)
  next
    case None
    show ?thesis
    proof (cases "kind_deleted c")
      case del: None
      with False None show ?thesis by (simp add: store_backend_def store_other_shrinks)
    next
      case (Some kn)
      with False None show ?thesis
        by (cases kn) (auto simp: store_backend_def shrinks_def)
    qed
  qed
qed

lemma shrinkingD: "shrinking m \<Longrightarrow> m w = (r, w') \<Longrightarrow> shrinks (remote w) (remote w')"
  unfolding shrinking_def by (metis snd_conv)

lemma shrinking_return [intro!]: "shrinking (return x)"
  by (simp add: shrinking_def)

lemma shrinking_raise [intro!]: "shrinking (raise e)"
  by (simp add: shrinking_def)

lemma shrinking_lift [intro!]: "shrinking (lift r)"
  by (simp add: shrinking_def)

lemma shrinking_say [intro!]: "shrinking (say l)"
  by (simp add: shrinking_def)

lemma shrinking_sleep [intro!]: "shrinking (sleep n)"
  by (simp add: shrinking_def)

lemma shrinking_execute [intro!]: "shrinking (execute store_backend c)"
  unfolding shrinking_def
proof
  fix w :: "store world"
  show "shrinks (remote w) (remote (snd (execute store_backend c w)))"
    using store_backend_shrinks[of "remote w" c]
    by (cases "store_backend (remote w) c") (simp add: execute_apply)
qed

lemma shrinking_bind [intro!]:
  assumes "shrinking m" and "\<And>x. shrinking (f x)"
  shows "shrinking (bind m f)"
  unfolding shrinking_def
proof
  fix w
  obtain r w1 where m: "m w = (r, w1)" by (cases "m w")
  note s1 = shrinkingD[OF assms(1) m]
  show "shrinks (remote w) (remote (snd (bind m f w)))"
  proof (cases r)
    case (Inl e)
    with m s1 show ?thesis by (simp add: bind_apply)
  next
    case (Inr x)
    obtain r2 w2 where f: "f x w1 = (r2, w2)" by (cases "f x w1")
    from shrinks_trans[OF s1 shrinkingD[OF assms(2) f]] m Inr f show ?thesis
      by (simp add: bind_apply)
  qed
qed

lemma shrinking_try_except [intro!]:
  assumes "shrinking m" and "\<And>e. shrinking (h e)"
  shows "shrinking (try_except m h)"
  unfolding shrinking_def
proof
  fix w
  obtain r w1 where m: "m w = (r, w1)" by (cases "m w")
  note s1 = shrinkingD[OF assms(1) m]
  show "shrinks (remote w) (remote (snd (try_except m h w)))"
  proof (cases r)
    case (Inr x)
    with m s1 show ?thesis by (simp add: try_except_def)
  next
    case (Inl e)
    obtain r2 w2 where h: "h e w1 = (r2, w2)" by (cases "h e w1")
    from shrinks_trans[OF s1 shrinkingD[OF assms(2) h]] m Inl h show ?thesis
      by (simp add: try_except_def)
  qed
qed

lemma shrinking_if [intro!]:
  "(c \<Longrightarrow> shrinking a) \<Longrightarrow> (\<not> c \<Longrightarrow> shrinking b) \<Longrightarrow> shrinking (if c then a else b)"
  by simp

lemma shrinking_case_prod [intro!]:
  "(\<And>a b. shrinking (f a b)) \<Longrightarrow> shrinking (case p of (a, b) \<Rightarrow> f a b)"
  by (cases p) simp

lemma shrinking_for_each [intro!]:
  "(\<And>x. shrinking (body x)) \<Longrightarrow> shrinking (for_each xs body)"
  by (induction xs) auto

lemma shrinking_poll: "shrinking (poll_operation store_backend l op)"
  unfolding poll_operation_def by auto

lemma shrinking_report_error: "shrinking (report_error c)"
  unfolding report_error_def by auto

lemma shrinking_wait_loop: "shrinking (wait_loop store_backend l op t)"
proof (induction store_backend l op t rule: wait_loop.induct)
  case (1 selflink operation timeout)
  show ?case
    by (subst wait_loop.simps) (auto intro: shrinking_poll shrinking_report_error "1.hyps")
qed

lemma shrinking_wait [intro!]: "shrinking (wait_for_operation store_backend op)"
  unfolding wait_for_operation_def by (auto intro: shrinking_wait_loop)

lemma shrinking_gone_loop [intro!]: "shrinking (gone_loop store_backend n t)"
proof (induction store_backend n t rule: gone_loop.induct)
  case (1 rule_name timeout)
  show ?case
    by (subst gone_loop.simps) (auto intro: "1.hyps")
qed

lemma shrinking_delete_dns [intro!]: "shrinking (delete_dns store_backend self n d)"
  unfolding delete_dns_def by auto

lemma shrinking_delete_address [intro!]: "shrinking (delete_address store_backend self n)"
  unfolding delete_address_def by auto

lemma shrinking_delete_listed [intro!]: "shrinking (delete_listed store_backend lc dc label n)"
  unfolding delete_listed_def by auto

lemma shrinking_delete_forwarding_rules [intro!]: "shrinking (delete_forwarding_rules store_backend n)"
  unfolding delete_forwarding_rules_def by auto

lemma shrinking_delete_instance_groups [intro!]: "shrinking (delete_instance_groups store_backend n)"
  unfolding delete_instance_groups_def by auto

lemma torn_down_shrinks: "torn_down n s \<Longrightarrow> shrinks s s' \<Longrightarrow> torn_down n s'"
  unfolding torn_down_def shrinks_def
  by (auto simp: filter_empty_conv)


section \<open>Teardown against the store\<close>

lemma listing_items:
  "get_default (listing names) ''items'' (JList [])
     = Inr (JList (map (\<lambda>n. JObj [(''name'', JStr n)]) names))"
  by (simp add: listing_def)

lemma store_list:
  "kind_listed lc = Some k \<Longrightarrow> lc \<notin> set (refused s) \<Longrightarrow>
     store_backend s lc = (Inr (listing (held s k)), s)"
  by (simp add: store_backend_def)

lemma store_refuses:
  "c \<in> set (refused s) \<Longrightarrow> store_backend s c = (Inl (BackendError ''403 Refused''), s)"
  by (simp add: store_backend_def)

lemma store_delete_success:
  "store_backend s c = (Inr op, s') \<Longrightarrow> kind_listed c = None \<Longrightarrow> kind_deleted c = Some (k, n)
     \<Longrightarrow> n \<notin> set (held s' k)"
  by (auto simp: store_backend_def split: if_splits)

lemma absent_shrinks: "n \<notin> set (held s k) \<Longrightarrow> shrinks s s' \<Longrightarrow> n \<notin> set (held s' k)"
  by (auto simp: shrinks_def)

lemma nomatch_shrinks: "filter P (held s k) = [] \<Longrightarrow> shrinks s s' \<Longrightarrow> filter P (held s' k) = []"
  by (auto simp: shrinks_def filter_empty_conv)

lemma refused_shrinks: "c \<notin> set (refused s) \<Longrightarrow> shrinks s s' \<Longrightarrow> c \<notin> set (refused s')"
  by (simp add: shrinks_def)

lemma bind_success:
  "bind m f w = (Inr y, w') \<Longrightarrow> \<exists>x w1. m w = (Inr x, w1) \<and> f x w1 = (Inr y, w')"
  by (auto simp: bind_apply split: prod.splits sum.splits)

lemma bind_total:
  "fst (m w) = Inr x \<Longrightarrow> (\<And>w'. fst (f x w') = Inr y) \<Longrightarrow> fst (bind m f w) = Inr y"
  by (cases "m w") (simp add: bind_apply)

lemma try_except_total:
  "(\<And>e w'. fst (h e w') = Inr ()) \<Longrightarrow> fst (try_except m h w) = Inr ()"
  by (cases "m w") (auto simp: try_except_def split: sum.splits)

text \<open>Nothing under the name: the loops pass over every item.\<close>

lemma for_each_skip_named:
  "n \<notin> set ns \<Longrightarrow>
   for_each (map (\<lambda>n. JObj [(''name'', JStr n)]) ns)
     (\<lambda>item. bind (lift (getitem item ''name'')) (\<lambda>item_name.
        if item_name = JStr n then found else return ())) w = (Inr (), w)"
  by (induction ns) (auto simp: bind_apply)

lemma delete_listed_absent:
  assumes "kind_listed lc = Some k" and "lc \<notin> set (refused (remote w))"
    and "n \<notin> set (held (remote w) k)"
  shows "delete_listed store_backend lc dc label n w = (Inr (), w\<lparr>trace := trace w @ [lc]\<rparr>)"
  unfolding delete_listed_def
  using assms
  by (simp add: bind_apply execute_apply store_list listing_items for_each_skip_named)

lemma for_each_skip_rules:
  "filter (\<lambda>x. x = n \<or> startswith x (n @ ''-'')) ns = [] \<Longrightarrow>
   for_each (map (\<lambda>n. JObj [(''name'', JStr n)]) ns)
     (\<lambda>item. bind (lift (getitem item ''name'')) (\<lambda>item_name.
        bind (lift (as_str item_name)) (\<lambda>rule_name.
        if rule_name = n \<or> startswith rule_name (n @ ''-'') then found rule_name else return ()))) w
     = (Inr (), w)"
  by (induction ns) (auto simp: bind_apply split: if_splits)

lemma delete_forwarding_rules_absent:
  assumes "ForwardingRulesList \<notin> set (refused (remote w))"
    and "filter (\<lambda>x. x = n \<or> startswith x (n @ ''-'')) (held (remote w) ForwardingRule) = []"
  shows "delete_forwarding_rules store_backend n w
           = (Inr (), w\<lparr>trace := trace w @ [ForwardingRulesList]\<rparr>)"
  unfolding delete_forwarding_rules_def
  using assms
  by (simp add: bind_apply execute_apply store_list listing_items for_each_skip_rules)

lemma delete_address_total: "fst (delete_address B self n w) = Inr ()"
  unfolding delete_address_def by (rule try_except_total) simp

lemma for_each_groups_total:
  "fst (for_each (map (\<lambda>n. JObj [(''name'', JStr n)]) ns)
     (\<lambda>item. bind (lift (getitem item ''name'')) (\<lambda>item_name.
        if item_name = JStr n then
          bind (say l) (\<lambda>_. try_except m (\<lambda>e. say (l' e)))
        else return ())) w) = Inr ()"
proof (induction ns arbitrary: w)
  case Nil
  show ?case by simp
next
  case (Cons x xs)
  have step: "fst (bind (lift (getitem (JObj [(''name'', JStr x)]) ''name'')) (\<lambda>item_name.
        if item_name = JStr n then
          bind (say l) (\<lambda>_. try_except m (\<lambda>e. say (l' e)))
        else return ()) w) = Inr ()" for w
    by (auto simp: bind_apply intro!: try_except_total)
  show ?case
    by (simp only: list.map for_each.simps) (rule bind_total[where x="()"], rule step, rule Cons.IH)
qed

lemma delete_instance_groups_total:
  assumes "InstanceGroupsList \<notin> set (refused (remote w))"
  shows "fst (delete_instance_groups store_backend n w) = Inr ()"
  unfolding delete_instance_groups_def
  using assms
  by (simp add: bind_apply execute_apply store_list listing_items for_each_groups_total)


text \<open>A teardown of a store where nothing is left under the name succeeds.\<close>

lemma teardown_of_torn_down:
  assumes "torn_down (str_replace name ''.'' ''-'') (remote w)"
  shows "fst (delete_loadbalancer store_backend self name w) = Inr Success"
proof -
  let ?n = "str_replace name ''.'' ''-''"
  from assms have
    fw: "?n \<notin> set (held (remote w) Firewall)" and
    fr: "filter (\<lambda>x. x = ?n \<or> startswith x (?n @ ''-'')) (held (remote w) ForwardingRule) = []" and
    lists: "FirewallsList \<notin> set (refused (remote w))" "ForwardingRulesList \<notin> set (refused (remote w))"
    by (simp_all add: torn_down_def)
  let ?w1 = "w\<lparr>trace := trace w @ [FirewallsList]\<rparr>"
  let ?w2 = "?w1\<lparr>trace := trace ?w1 @ [ForwardingRulesList]\<rparr>"
  have p1: "delete_listed store_backend FirewallsList FirewallsDelete ''Deleting firewall rule '' ?n w
              = (Inr (), ?w1)"
    by (rule delete_listed_absent[where k=Firewall]) (simp_all add: fw lists)
  have p2: "delete_forwarding_rules store_backend ?n ?w1 = (Inr (), ?w2)"
    by (rule delete_forwarding_rules_absent) (simp_all add: fr lists)
  obtain w3 where p3: "delete_address store_backend self ?n ?w2 = (Inr (), w3)"
    using delete_address_total[of store_backend self ?n ?w2]
    by (cases "delete_address store_backend self ?n ?w2") simp
  have "shrinks (remote ?w2) (remote w3)"
    using shrinkingD[where m="delete_address store_backend self ?n" and w="?w2", OF shrinking_delete_address p3] .
  then have "shrinks (remote w) (remote w3)" by simp
  from torn_down_shrinks[OF assms this] have
    bs: "?n \<notin> set (held (remote w3) BackendService)" and
    rh: "?n \<notin> set (held (remote w3) RegionHealthCheck)" and
    hc: "?n \<notin> set (held (remote w3) HealthCheck)" and
    lists3: "RegionBackendServicesList \<notin> set (refused (remote w3))"
      "RegionHealthChecksList \<notin> set (refused (remote w3))"
      "HealthChecksList \<notin> set (refused (remote w3))"
      "InstanceGroupsList \<notin> set (refused (remote w3))"
    by (simp_all add: torn_down_def)
  let ?w4 = "w3\<lparr>trace := trace w3 @ [RegionBackendServicesList]\<rparr>"
  let ?w5 = "?w4\<lparr>trace := trace ?w4 @ [RegionHealthChecksList]\<rparr>"
  let ?w6 = "?w5\<lparr>trace := trace ?w5 @ [HealthChecksList]\<rparr>"
  have p4: "delete_listed store_backend RegionBackendServicesList RegionBackendServicesDelete
              ''Deleting backend service '' ?n w3 = (Inr (), ?w4)"
    by (rule delete_listed_absent[where k=BackendService]) (simp_all add: bs lists3)
  have p5: "delete_listed store_backend RegionHealthChecksList RegionHealthChecksDelete
              ''Deleting healthcheck '' ?n ?w4 = (Inr (), ?w5)"
    by (rule delete_listed_absent[where k=RegionHealthCheck]) (simp_all add: rh lists3)
  have p6: "delete_listed store_backend HealthChecksList HealthChecksDelete
              ''Deleting healthcheck '' ?n ?w5 = (Inr (), ?w6)"
    by (rule delete_listed_absent[where k=HealthCheck]) (simp_all add: hc lists3)
  have p7: "fst (delete_instance_groups store_backend ?n ?w6) = Inr ()"
    by (rule delete_instance_groups_total) (simp add: lists3)
  obtain w7 where p7': "delete_instance_groups store_backend ?n ?w6 = (Inr (), w7)"
    using p7 by (cases "delete_instance_groups store_backend ?n ?w6") simp
  show ?thesis
    unfolding delete_loadbalancer_def Let_def
    by (simp only: bind_apply p1 p2 p3 p4 p5 p6 p7' prod.case sum.case return_apply fst_conv)
qed

text \<open>What each step of a teardown that went through has left in the store.\<close>

lemma for_each_removes_named:
  assumes "for_each (map (\<lambda>n. JObj [(''name'', JStr n)]) ns)
     (\<lambda>item. bind (lift (getitem item ''name'')) (\<lambda>item_name.
        if item_name = JStr n then
          bind (say l) (\<lambda>_. bind (execute store_backend c) (\<lambda>operation.
            wait_for_operation store_backend operation))
        else return ())) w = (Inr (), w')"
    and "kind_listed c = None" and "kind_deleted c = Some (k, n)"
    and "n \<in> set (held (remote w) k) \<Longrightarrow> n \<in> set ns"
  shows "n \<notin> set (held (remote w') k)"
  using assms
proof (induction ns arbitrary: w)
  case Nil
  then show ?case by auto
next
  case (Cons x xs)
  let ?body = "\<lambda>item. bind (lift (getitem item ''name'')) (\<lambda>item_name.
        if item_name = JStr n then
          bind (say l) (\<lambda>_. bind (execute store_backend c) (\<lambda>operation.
            wait_for_operation store_backend operation))
        else return ())"
  from Cons.prems(1) have "bind (?body (JObj [(''name'', JStr x)]))
      (\<lambda>_. for_each (map (\<lambda>n. JObj [(''name'', JStr n)]) xs) ?body) w = (Inr (), w')"
    by (simp only: list.map for_each.simps)
  from bind_success[OF this] obtain w1 where
    head: "?body (JObj [(''name'', JStr x)]) w = (Inr (), w1)" and
    tail: "for_each (map (\<lambda>n. JObj [(''name'', JStr n)]) xs) ?body w1 = (Inr (), w')"
    by auto
  show ?case
  proof (cases "x = n")
    case False
    with head have same: "w1 = w" by (simp add: bind_apply)
    have "n \<in> set (held (remote w1) k) \<Longrightarrow> n \<in> set xs"
      using Cons.prems(4) False same by auto
    from Cons.IH[OF tail Cons.prems(2,3) this] show ?thesis .
  next
    case True
    with head have "bind (execute store_backend c) (\<lambda>operation.
            wait_for_operation store_backend operation) (w\<lparr>console := console w @ [l]\<rparr>) = (Inr (), w1)"
      by (simp add: bind_apply)
    from bind_success[OF this] obtain operation we where
      sent: "execute store_backend c (w\<lparr>console := console w @ [l]\<rparr>) = (Inr operation, we)" and
      waited: "wait_for_operation store_backend operation we = (Inr (), w1)"
      by auto
    from sent have "store_backend (remote w) c = (Inr operation, remote we)"
      by (cases "store_backend (remote w) c") (auto simp: execute_apply)
    from store_delete_success[OF this Cons.prems(2,3)] have "n \<notin> set (held (remote we) k)" .
    moreover have "shrinks (remote we) (remote w1)"
      using shrinkingD[where m="wait_for_operation store_backend operation" and w=we, OF shrinking_wait waited] .
    ultimately have "n \<notin> set (held (remote w1) k)" by (rule absent_shrinks)
    moreover have "shrinking (for_each (map (\<lambda>n. JObj [(''name'', JStr n)]) xs) ?body)" by auto
    then have "shrinks (remote w1) (remote w')"
      using shrinkingD[where m="for_each (map (\<lambda>n. JObj [(''name'', JStr n)]) xs) ?body" and w=w1] tail
      by blast
    ultimately show ?thesis by (rule absent_shrinks)
  qed
qed


lemma delete_listed_removes:
  assumes run: "delete_listed store_backend lc dc label n w = (Inr (), w')"
    and lc: "kind_listed lc = Some k"
    and dc: "kind_listed (dc n) = None" "kind_deleted (dc n) = Some (k, n)"
  shows "n \<notin> set (held (remote w') k) \<and> lc \<notin> set (refused (remote w))"
proof -
  have answered: "lc \<notin> set (refused (remote w))"
  proof
    assume "lc \<in> set (refused (remote w))"
    from store_refuses[OF this] run show False
      by (simp add: delete_listed_def bind_apply execute_apply)
  qed
  with run lc have "for_each (map (\<lambda>n. JObj [(''name'', JStr n)]) (held (remote w) k))
     (\<lambda>item. bind (lift (getitem item ''name'')) (\<lambda>item_name.
        if item_name = JStr n then
          bind (say (Pprint [Lit label, Lit n])) (\<lambda>_. bind (execute store_backend (dc n)) (\<lambda>operation.
            wait_for_operation store_backend operation))
        else return ())) (w\<lparr>trace := trace w @ [lc]\<rparr>) = (Inr (), w')"
    by (simp add: delete_listed_def bind_apply execute_apply store_list listing_items)
  from for_each_removes_named[OF this dc] have "n \<notin> set (held (remote w') k)" by simp
  with answered show ?thesis by simp
qed

lemma for_each_removes_rules:
  assumes "for_each (map (\<lambda>n. JObj [(''name'', JStr n)]) ns)
     (\<lambda>item. bind (lift (getitem item ''name'')) (\<lambda>item_name.
        bind (lift (as_str item_name)) (\<lambda>rule_name.
          if rule_name = n \<or> startswith rule_name (n @ ''-'') then
            bind (say (l rule_name)) (\<lambda>_.
            bind (execute store_backend (ForwardingRulesDelete rule_name)) (\<lambda>operation.
            bind (wait_for_operation store_backend operation) (\<lambda>_.
            bind (say l') (\<lambda>_.
              gone_loop store_backend rule_name 0))))
          else return ()))) w = (Inr (), w')"
    and "\<And>y. y \<in> set (held (remote w) ForwardingRule) \<Longrightarrow> y = n \<or> startswith y (n @ ''-'')
           \<Longrightarrow> y \<in> set ns"
  shows "filter (\<lambda>y. y = n \<or> startswith y (n @ ''-'')) (held (remote w') ForwardingRule) = []"
  using assms
proof (induction ns arbitrary: w)
  case Nil
  then show ?case by (auto simp: filter_empty_conv)
next
  case (Cons x xs)
  let ?body = "\<lambda>item. bind (lift (getitem item ''name'')) (\<lambda>item_name.
        bind (lift (as_str item_name)) (\<lambda>rule_name.
          if rule_name = n \<or> startswith rule_name (n @ ''-'') then
            bind (say (l rule_name)) (\<lambda>_.
            bind (execute store_backend (ForwardingRulesDelete rule_name)) (\<lambda>operation.
            bind (wait_for_operation store_backend operation) (\<lambda>_.
            bind (say l') (\<lambda>_.
              gone_loop store_backend rule_name 0))))
          else return ()))"
  from Cons.prems(1) have "bind (?body (JObj [(''name'', JStr x)]))
      (\<lambda>_. for_each (map (\<lambda>n. JObj [(''name'', JStr n)]) xs) ?body) w = (Inr (), w')"
    by (simp only: list.map for_each.simps)
  from bind_success[OF this] obtain w1 where
    head: "?body (JObj [(''name'', JStr x)]) w = (Inr (), w1)" and
    tail: "for_each (map (\<lambda>n. JObj [(''name'', JStr n)]) xs) ?body w1 = (Inr (), w')"
    by auto
  have "y \<in> set xs" if "y \<in> set (held (remote w1) ForwardingRule)"
    and "y = n \<or> startswith y (n @ ''-'')" for y
  proof (cases "x = n \<or> startswith x (n @ ''-'')")
    case False
    with head have "w1 = w" by (simp add: bind_apply)
    with Cons.prems(2)[of y] that False show ?thesis by auto
  next
    case True
    with head have "bind (execute store_backend (ForwardingRulesDelete x)) (\<lambda>operation.
            bind (wait_for_operation store_backend operation) (\<lambda>_.
            bind (say l') (\<lambda>_.
              gone_loop store_backend x 0))) (w\<lparr>console := console w @ [l x]\<rparr>) = (Inr (), w1)"
      by (simp add: bind_apply)
    from bind_success[OF this] obtain operation we where
      sent: "execute store_backend (ForwardingRulesDelete x) (w\<lparr>console := console w @ [l x]\<rparr>)
               = (Inr operation, we)" and
      rest: "bind (wait_for_operation store_backend operation) (\<lambda>_.
            bind (say l') (\<lambda>_. gone_loop store_backend x 0)) we = (Inr (), w1)"
      by auto
    from sent have step: "store_backend (remote w) (ForwardingRulesDelete x) = (Inr operation, remote we)"
      by (cases "store_backend (remote w) (ForwardingRulesDelete x)") (auto simp: execute_apply)
    from store_delete_success[OF step] have gone: "x \<notin> set (held (remote we) ForwardingRule)" by simp
    have first: "shrinks (remote w) (remote we)"
      using store_backend_shrinks[of "remote w" "ForwardingRulesDelete x"] step by simp
    have "shrinking (bind (wait_for_operation store_backend operation) (\<lambda>_.
            bind (say l') (\<lambda>_. gone_loop store_backend x 0)))" by auto
    then have second: "shrinks (remote we) (remote w1)"
      using shrinkingD[where w=we and m="bind (wait_for_operation store_backend operation) (\<lambda>_.
            bind (say l') (\<lambda>_. gone_loop store_backend x 0))"] rest by blast
    from that(1) second have "y \<in> set (held (remote we) ForwardingRule)"
      by (auto simp: shrinks_def)
    with gone first have "y \<noteq> x" "y \<in> set (held (remote w) ForwardingRule)"
      by (auto simp: shrinks_def)
    with Cons.prems(2)[of y] that(2) show ?thesis by auto
  qed
  from Cons.IH[OF tail this] show ?case .
qed

lemma delete_forwarding_rules_removes:
  assumes run: "delete_forwarding_rules store_backend n w = (Inr (), w')"
  shows "filter (\<lambda>y. y = n \<or> startswith y (n @ ''-'')) (held (remote w') ForwardingRule) = []
         \<and> ForwardingRulesList \<notin> set (refused (remote w))"
proof -
  have answered: "ForwardingRulesList \<notin> set (refused (remote w))"
  proof
    assume "ForwardingRulesList \<in> set (refused (remote w))"
    from store_refuses[OF this] run show False
      by (simp add: delete_forwarding_rules_def bind_apply execute_apply)
  qed
  with run have "for_each (map (\<lambda>n. JObj [(''name'', JStr n)]) (held (remote w) ForwardingRule))
     (\<lambda>item. bind (lift (getitem item ''name'')) (\<lambda>item_name.
        bind (lift (as_str item_name)) (\<lambda>rule_name.
          if rule_name = n \<or> startswith rule_name (n @ ''-'') then
            bind (say (Pprint [Lit ''Deleting forwarding rule '', Lit rule_name])) (\<lambda>_.
            bind (execute store_backend (ForwardingRulesDelete rule_name)) (\<lambda>operation.
            bind (wait_for_operation store_backend operation) (\<lambda>_.
            bind (say (Pprint [Lit ''Waiting to make sure forwarding rule is gone''])) (\<lambda>_.
              gone_loop store_backend rule_name 0))))
          else return ()))) (w\<lparr>trace := trace w @ [ForwardingRulesList]\<rparr>) = (Inr (), w')"
    by (simp add: delete_forwarding_rules_def bind_apply execute_apply store_list listing_items)
  from for_each_removes_rules[where l="\<lambda>r. Pprint [Lit ''Deleting forwarding rule '', Lit r]", OF this]
  have "filter (\<lambda>y. y = n \<or> startswith y (n @ ''-'')) (held (remote w') ForwardingRule) = []"
    by simp
  with answered show ?thesis by simp
qed

lemma delete_instance_groups_answered:
  assumes run: "delete_instance_groups store_backend n w = (Inr u, w')"
  shows "InstanceGroupsList \<notin> set (refused (remote w))"
proof
  assume "InstanceGroupsList \<in> set (refused (remote w))"
  from store_refuses[OF this] run show False
    by (simp add: delete_instance_groups_def bind_apply execute_apply)
qed


lemma delete_listed_shrinks:
  "delete_listed store_backend lc dc label n w = (r, w') \<Longrightarrow> shrinks (remote w) (remote w')"
  using shrinkingD[where m="delete_listed store_backend lc dc label n"] shrinking_delete_listed by blast

lemma delete_forwarding_rules_shrinks:
  "delete_forwarding_rules store_backend n w = (r, w') \<Longrightarrow> shrinks (remote w) (remote w')"
  using shrinkingD[where m="delete_forwarding_rules store_backend n"] shrinking_delete_forwarding_rules
  by blast

lemma delete_address_shrinks:
  "delete_address store_backend self n w = (r, w') \<Longrightarrow> shrinks (remote w) (remote w')"
  using shrinkingD[where m="delete_address store_backend self n"] shrinking_delete_address by blast

lemma delete_instance_groups_shrinks:
  "delete_instance_groups store_backend n w = (r, w') \<Longrightarrow> shrinks (remote w) (remote w')"
  using shrinkingD[where m="delete_instance_groups store_backend n"] shrinking_delete_instance_groups
  by blast

text \<open>A teardown that went through leaves nothing under the name.\<close>

lemma teardown_leaves_torn_down:
  assumes "delete_loadbalancer store_backend self name w = (Inr r, w')"
  shows "torn_down (str_replace name ''.'' ''-'') (remote w')"
proof -
  let ?n = "str_replace name ''.'' ''-''"
  from assms have "bind (delete_listed store_backend FirewallsList FirewallsDelete ''Deleting firewall rule '' ?n) (\<lambda>_.
      bind (delete_forwarding_rules store_backend ?n) (\<lambda>_.
      bind (delete_address store_backend self ?n) (\<lambda>_.
      bind (delete_listed store_backend RegionBackendServicesList RegionBackendServicesDelete
              ''Deleting backend service '' ?n) (\<lambda>_.
      bind (delete_listed store_backend RegionHealthChecksList RegionHealthChecksDelete ''Deleting healthcheck '' ?n) (\<lambda>_.
      bind (delete_listed store_backend HealthChecksList HealthChecksDelete ''Deleting healthcheck '' ?n) (\<lambda>_.
      bind (delete_instance_groups store_backend ?n) (\<lambda>_.
        return Success))))))) w = (Inr r, w')"
    by (simp only: delete_loadbalancer_def Let_def)
  from bind_success[OF this] obtain w1 where
    p1: "delete_listed store_backend FirewallsList FirewallsDelete ''Deleting firewall rule '' ?n w = (Inr (), w1)"
    and r1: "bind (delete_forwarding_rules store_backend ?n) (\<lambda>_.
      bind (delete_address store_backend self ?n) (\<lambda>_.
      bind (delete_listed store_backend RegionBackendServicesList RegionBackendServicesDelete
              ''Deleting backend service '' ?n) (\<lambda>_.
      bind (delete_listed store_backend RegionHealthChecksList RegionHealthChecksDelete ''Deleting healthcheck '' ?n) (\<lambda>_.
      bind (delete_listed store_backend HealthChecksList HealthChecksDelete ''Deleting healthcheck '' ?n) (\<lambda>_.
      bind (delete_instance_groups store_backend ?n) (\<lambda>_.
        return Success)))))) w1 = (Inr r, w')"
    by auto
  from bind_success[OF r1] obtain w2 where
    p2: "delete_forwarding_rules store_backend ?n w1 = (Inr (), w2)"
    and r2: "bind (delete_address store_backend self ?n) (\<lambda>_.
      bind (delete_listed store_backend RegionBackendServicesList RegionBackendServicesDelete
              ''Deleting backend service '' ?n) (\<lambda>_.
      bind (delete_listed store_backend RegionHealthChecksList RegionHealthChecksDelete ''Deleting healthcheck '' ?n) (\<lambda>_.
      bind (delete_listed store_backend HealthChecksList HealthChecksDelete ''Deleting healthcheck '' ?n) (\<lambda>_.
      bind (delete_instance_groups store_backend ?n) (\<lambda>_.
        return Success))))) w2 = (Inr r, w')"
    by auto
  from bind_success[OF r2] obtain w3 where
    p3: "delete_address store_backend self ?n w2 = (Inr (), w3)"
    and r3: "bind (delete_listed store_backend RegionBackendServicesList RegionBackendServicesDelete
              ''Deleting backend service '' ?n) (\<lambda>_.
      bind (delete_listed store_backend RegionHealthChecksList RegionHealthChecksDelete ''Deleting healthcheck '' ?n) (\<lambda>_.
      bind (delete_listed store_backend HealthChecksList HealthChecksDelete ''Deleting healthcheck '' ?n) (\<lambda>_.
      bind (delete_instance_groups store_backend ?n) (\<lambda>_.
        return Success)))) w3 = (Inr r, w')"
    by auto
  from bind_success[OF r3] obtain w4 where
    p4: "delete_listed store_backend RegionBackendServicesList RegionBackendServicesDelete
              ''Deleting backend service '' ?n w3 = (Inr (), w4)"
    and r4: "bind (delete_listed store_backend RegionHealthChecksList RegionHealthChecksDelete ''Deleting healthcheck '' ?n) (\<lambda>_.
      bind (delete_listed store_backend HealthChecksList HealthChecksDelete ''Deleting healthcheck '' ?n) (\<lambda>_.
      bind (delete_instance_groups store_backend ?n) (\<lambda>_.
        return Success))) w4 = (Inr r, w')"
    by auto
  from bind_success[OF r4] obtain w5 where
    p5: "delete_listed store_backend RegionHealthChecksList RegionHealthChecksDelete ''Deleting healthcheck '' ?n w4
           = (Inr (), w5)"
    and r5: "bind (delete_listed store_backend HealthChecksList HealthChecksDelete ''Deleting healthcheck '' ?n) (\<lambda>_.
      bind (delete_instance_groups store_backend ?n) (\<lambda>_.
        return Success)) w5 = (Inr r, w')"
    by auto
  from bind_success[OF r5] obtain w6 where
    p6: "delete_listed store_backend HealthChecksList HealthChecksDelete ''Deleting healthcheck '' ?n w5
           = (Inr (), w6)"
    and r6: "bind (delete_instance_groups store_backend ?n) (\<lambda>_. return Success) w6 = (Inr r, w')"
    by auto
  from bind_success[OF r6] have p7: "delete_instance_groups store_backend ?n w6 = (Inr (), w')"
    by auto
  note s1 = delete_listed_shrinks[OF p1]
  note s2 = delete_forwarding_rules_shrinks[OF p2]
  note s3 = delete_address_shrinks[OF p3]
  note s4 = delete_listed_shrinks[OF p4]
  note s5 = delete_listed_shrinks[OF p5]
  note s6 = delete_listed_shrinks[OF p6]
  note s7 = delete_instance_groups_shrinks[OF p7]
  note t6 = s7
  note t5 = shrinks_trans[OF s6 t6]
  note t4 = shrinks_trans[OF s5 t5]
  note t3 = shrinks_trans[OF s4 t4]
  note t2 = shrinks_trans[OF s3 t3]
  note t1 = shrinks_trans[OF s2 t2]
  note t0 = shrinks_trans[OF s1 t1]
  have f1: "?n \<notin> set (held (remote w1) Firewall)" "FirewallsList \<notin> set (refused (remote w))"
    using delete_listed_removes[where k=Firewall, OF p1] by simp_all
  have f2: "filter (\<lambda>y. y = ?n \<or> startswith y (?n @ ''-'')) (held (remote w2) ForwardingRule) = []"
    "ForwardingRulesList \<notin> set (refused (remote w1))"
    using delete_forwarding_rules_removes[OF p2] by simp_all
  have f4: "?n \<notin> set (held (remote w4) BackendService)"
    "RegionBackendServicesList \<notin> set (refused (remote w3))"
    using delete_listed_removes[where k=BackendService, OF p4] by simp_all
  have f5: "?n \<notin> set (held (remote w5) RegionHealthCheck)"
    "RegionHealthChecksList \<notin> set (refused (remote w4))"
    using delete_listed_removes[where k=RegionHealthCheck, OF p5] by simp_all
  have f6: "?n \<notin> set (held (remote w6) HealthCheck)"
    "HealthChecksList \<notin> set (refused (remote w5))"
    using delete_listed_removes[where k=HealthCheck, OF p6] by simp_all
  note f7 = delete_instance_groups_answered[OF p7]
  have "?n \<notin> set (held (remote w') Firewall)"
    by (rule absent_shrinks[OF f1(1) t1])
  moreover have "filter (\<lambda>y. y = ?n \<or> startswith y (?n @ ''-'')) (held (remote w') ForwardingRule) = []"
    by (rule nomatch_shrinks[OF f2(1) t2])
  moreover have "?n \<notin> set (held (remote w') BackendService)"
    by (rule absent_shrinks[OF f4(1) t4])
  moreover have "?n \<notin> set (held (remote w') RegionHealthCheck)"
    by (rule absent_shrinks[OF f5(1) t5])
  moreover have "?n \<notin> set (held (remote w') HealthCheck)"
    by (rule absent_shrinks[OF f6(1) t6])
  moreover have "FirewallsList \<notin> set (refused (remote w'))"
    by (rule refused_shrinks[OF f1(2) t0])
  moreover have "ForwardingRulesList \<notin> set (refused (remote w'))"
    by (rule refused_shrinks[OF f2(2) t1])
  moreover have "RegionBackendServicesList \<notin> set (refused (remote w'))"
    by (rule refused_shrinks[OF f4(2) t3])
  moreover have "RegionHealthChecksList \<notin> set (refused (remote w'))"
    by (rule refused_shrinks[OF f5(2) t4])
  moreover have "HealthChecksList \<notin> set (refused (remote w'))"
    by (rule refused_shrinks[OF f6(2) t5])
  moreover have "InstanceGroupsList \<notin> set (refused (remote w'))"
    by (rule refused_shrinks[OF f7 t6])
  ultimately show ?thesis by (simp add: torn_down_def)
qed

text \<open>
  Against the resource store, whose listings show a deletion at once, whatever it holds
  and whatever it refuses: when a first \<open>delete_loadbalancer\<close> has returned, a second one
  from the state the first has left returns the tagged success. The first call has removed
  what the unguarded deletions are for, so the second finds none of it in the listings; the
  address and the instance group may still be there, and their deletions are guarded.
\<close>

lemma delete_loadbalancer_twice:
  assumes "fst (delete_loadbalancer store_backend self name w) = Inr r"
  shows "fst (delete_loadbalancer store_backend self name
                (snd (delete_loadbalancer store_backend self name w))) = Inr Success"
proof -
  from assms have "delete_loadbalancer store_backend self name w
                     = (Inr r, snd (delete_loadbalancer store_backend self name w))"
    by (cases "delete_loadbalancer store_backend self name w") simp
  from teardown_of_torn_down[OF teardown_leaves_torn_down[OF this]] show ?thesis .
qed

lemma delete_loadbalancer_twice_example:
  "fst (delete_loadbalancer store_backend self0 ''lb'' (world0 lb_store)) = Inr Success
   \<and> fst (delete_loadbalancer store_backend self0 ''lb''
            (snd (delete_loadbalancer store_backend self0 ''lb'' (world0 lb_store)))) = Inr Success"
proof -
  have first: "fst (delete_loadbalancer store_backend self0 ''lb'' (world0 lb_store)) = Inr Success"
    by code_simp
  from delete_loadbalancer_twice[OF first] first show ?thesis by simp
qed

text \<open>
  What the second teardown of that store sends: the listings, the lookup of the address,
  which is gone, and once more the deletion of the instance group, refused again and
  passed over.
\<close>

lemma second_teardown_calls:
  "calls_made (snd (delete_loadbalancer store_backend self0 ''lb'' (world0 lb_store)))
     (snd (delete_loadbalancer store_backend self0 ''lb''
            (snd (delete_loadbalancer store_backend self0 ''lb'' (world0 lb_store)))))
   = [FirewallsList, ForwardingRulesList, AddressesGet ''lb'', RegionBackendServicesList,
      RegionHealthChecksList, HealthChecksList, InstanceGroupsList, InstanceGroupsDelete ''lb'']"
  by code_simp

section \<open>Teardown behind a listing that lags\<close>

text \<open>
  The deletion of a listed firewall rule stands outside any \<open>try\<close>: whatever the backend
  raises on it escapes from \<open>delete_loadbalancer\<close>. This holds for every backend that
  lists a rule under the name and refuses its deletion.
\<close>

lemma firewall_delete_fault_escapes:
  assumes "B (remote w) FirewallsList
             = (Inr (JObj [(''items'', JList (JObj [(''name'', JStr (str_replace name0 ''.'' ''-''))] # others))]), s1)"
    and "B s1 (FirewallsDelete (str_replace name0 ''.'' ''-'')) = (Inl e, s2)"
  shows "fst (delete_loadbalancer B self name0 w) = Inl e"
  using assms
  by (simp add: delete_loadbalancer_def delete_listed_def bind_apply execute_apply Let_def say_def)

text \<open>
  C8. The claim is that a second \<open>delete_loadbalancer\<close> right after a first successful one
  never raises, every deletion step tolerating an absent resource. Behind a listing that
  lags it does raise. The first call on the load balancer \<open>lb\<close> returns the tagged success.
  The second, from the state the first has left, still finds the firewall rule in the
  listing, sends its deletion again, and the not-found of the backend escapes: the second
  call has sent the listing and the deletion and nothing else.
\<close>

theorem delete_loadbalancer_second_call_raises:
  "fst (delete_loadbalancer lagging_backend self0 ''lb'' (world0 (lb_store, lb_store))) = Inr Success
   \<and> fst (delete_loadbalancer lagging_backend self0 ''lb''
            (snd (delete_loadbalancer lagging_backend self0 ''lb'' (world0 (lb_store, lb_store)))))
       = Inl (BackendError ''404 Not Found'')
   \<and> calls_made (snd (delete_loadbalancer lagging_backend self0 ''lb'' (world0 (lb_store, lb_store))))
        (snd (delete_loadbalancer lagging_backend self0 ''lb''
               (snd (delete_loadbalancer lagging_backend self0 ''lb'' (world0 (lb_store, lb_store))))))
       = [FirewallsList, FirewallsDelete ''lb'']"
  by code_simp

end
